theory Spec2Isabelle
  imports Main
begin

section \<open>JavaScript values used by \<open>src/index.ts\<close>\<close>

text \<open>
  Strings are lists of code units. The model keeps to code units below 256 (Isabelle's
  \<open>char\<close>), which covers every literal of the program; a JavaScript number that is an
  exit code, a clock reading or a line number is an \<open>int\<close>, and \<open>NaN\<close> (the only
  non-integer the program can produce, through \<open>parseInt\<close>) is a value of its own.
\<close>

datatype number = Num int | NaN

text \<open>\<open>s.startsWith(p)\<close>\<close>

fun startsWith :: "string \<Rightarrow> string \<Rightarrow> bool" where
  "startsWith s [] = True"
| "startsWith [] (p # ps) = False"
| "startsWith (c # cs) (p # ps) = (c = p \<and> startsWith cs ps)"

text \<open>
  \<open>String.prototype.trim\<close> strips WhiteSpace and LineTerminator code units from both
  ends: TAB, LF, VT, FF, CR, SP and NBSP are the ones below 256.
\<close>

definition isWhiteSpace :: "char \<Rightarrow> bool" where
  "isWhiteSpace c = (c = CHR 0x09 \<or> c = CHR 0x0A \<or> c = CHR 0x0B \<or> c = CHR 0x0C
     \<or> c = CHR 0x0D \<or> c = CHR 0x20 \<or> c = CHR 0xA0)"

definition trim :: "string \<Rightarrow> string" where
  "trim s = rev (dropWhile isWhiteSpace (rev (dropWhile isWhiteSpace s)))"

text \<open>Truthiness of a \<open>number | undefined\<close>: \<open>undefined\<close> and 0 are falsy. (For a
  \<open>string | null\<close> the falsy values are \<open>null\<close> and the empty string; the tests on
  strings are written out where they occur.)\<close>

fun truthyNum :: "int option \<Rightarrow> bool" where
  "truthyNum None = False"
| "truthyNum (Some n) = (n \<noteq> 0)"

text \<open>\<open>a || b\<close> on strings, as in \<open>result.stdout || "(empty file)"\<close>, and with an
  optional or nullable left side, as in \<open>searchPath || currentWorkingDirectory || "."\<close>.\<close>

definition orElse :: "string \<Rightarrow> string \<Rightarrow> string" where
  "orElse a b = (if a \<noteq> [] then a else b)"

definition orElseOpt :: "string option \<Rightarrow> string \<Rightarrow> string" where
  "orElseOpt a b = (case a of Some s \<Rightarrow> if s \<noteq> [] then s else b | None \<Rightarrow> b)"

text \<open>
  Decimal printing of an integer, as a template literal \<open>${n}\<close> does. The numbers of
  JavaScript are doubles: the two agree on every integer up to \<open>2^53\<close> in absolute value,
  all of which a Number holds exactly and prints in plain decimal (the exponent form
  begins at \<open>10^21\<close>). What this program prints are readings of the clock, counts of
  occurrences, line numbers and exit statuses, all well inside that range; no statement
  below needs a larger one.
\<close>

definition digit :: "nat \<Rightarrow> char" where
  "digit d = ''0123456789'' ! d"

function showDigits :: "int \<Rightarrow> string" where
  "showDigits n =
     (if n < 10 then [digit (nat n)] else showDigits (n div 10) @ [digit (nat (n mod 10))])"
  by pat_completeness auto
termination
  by (relation "measure nat") auto

declare showDigits.simps [simp del]

definition showInt :: "int \<Rightarrow> string" where
  "showInt i = (if i < 0 then CHR ''-'' # showDigits (- i) else showDigits i)"

fun showNumber :: "number \<Rightarrow> string" where
  "showNumber (Num i) = showInt i"
| "showNumber NaN = ''NaN''"

text \<open>Code units the program's literals need: the single quote and the line feed.\<close>

definition sq :: string where "sq = [CHR 0x27]"
definition nl :: string where "nl = [CHR 0x0A]"

text \<open>
  \<open>StringIndexOf(string, searchValue, fromIndex)\<close> of ECMA-262: the least index
  \<open>i \<ge> fromIndex\<close> at which \<open>searchValue\<close> occurs, the empty string occurring at
  every index up to the length.
\<close>

fun firstMatch :: "string \<Rightarrow> string \<Rightarrow> nat \<Rightarrow> nat option" where
  "firstMatch [] r i = (if r = [] then Some i else None)"
| "firstMatch (c # cs) r i =
     (if startsWith (c # cs) r then Some i else firstMatch cs r (Suc i))"

definition stringIndexOf :: "string \<Rightarrow> string \<Rightarrow> nat \<Rightarrow> nat option" where
  "stringIndexOf s r fromIndex =
     (if fromIndex \<le> length s then firstMatch (drop fromIndex s) r fromIndex else None)"

lemma startsWith_take: "startsWith s r \<longleftrightarrow> take (length r) s = r \<and> length r \<le> length s"
  by (induction s r rule: startsWith.induct) auto

lemma firstMatch_bounds:
  "firstMatch cs r i = Some j \<Longrightarrow> i \<le> j \<and> j + length r \<le> i + length cs"
proof (induction cs arbitrary: i)
  case Nil
  then show ?case by (simp split: if_splits)
next
  case (Cons c cs)
  show ?case
  proof (cases "startsWith (c # cs) r")
    case True
    with Cons.prems show ?thesis by (simp add: startsWith_take)
  next
    case False
    with Cons.prems have "firstMatch cs r (Suc i) = Some j" by simp
    from Cons.IH [OF this] show ?thesis by simp
  qed
qed

lemma stringIndexOf_bounds:
  "stringIndexOf s r i = Some j \<Longrightarrow> i \<le> j \<and> j + length r \<le> length s"
  unfolding stringIndexOf_def
  by (auto split: if_splits dest!: firstMatch_bounds)

text \<open>
  \<open>s.split(separator)\<close> with a string separator and no limit. An empty separator
  gives the code units one by one; an empty \<open>s\<close> gives \<open>[""]\<close>; otherwise the loop
  of ECMA-262 cuts at each match and resumes right after it. \<open>splitFrom\<close> is that loop
  (entered with a non-empty separator only).
\<close>

function splitFrom :: "string \<Rightarrow> string \<Rightarrow> nat \<Rightarrow> string list" where
  "splitFrom s r i =
     (if r = [] then [drop i s]
      else case stringIndexOf s r i of
             None \<Rightarrow> [drop i s]
           | Some j \<Rightarrow> take (j - i) (drop i s) # splitFrom s r (j + length r))"
  by pat_completeness auto
termination
proof (relation "measure (\<lambda>(s, r, i). length s - i)")
  show "wf (measure (\<lambda>(s, r, i). length s - i))" by simp
next
  fix s r :: string and i j :: nat
  assume "r \<noteq> []" and "stringIndexOf s r i = Some j"
  from stringIndexOf_bounds [OF this(2)]
  have "i \<le> j" and "j + length r \<le> length s" by simp_all
  moreover from \<open>r \<noteq> []\<close> have "0 < length r" by simp
  ultimately have "length s - (j + length r) < length s - i" by linarith
  then show "((s, r, j + length r), (s, r, i)) \<in> measure (\<lambda>(s, r, i). length s - i)"
    by simp
qed

declare splitFrom.simps [simp del]

definition split :: "string \<Rightarrow> string \<Rightarrow> string list" where
  "split s separator =
     (if separator = [] then map (\<lambda>c. [c]) s
      else if s = [] then [s]
      else splitFrom s separator 0)"

text \<open>
  \<open>GetSubstitution\<close> of ECMA-262 for a string pattern (no captures, no named groups):
  in the replacement text \<open>$$\<close> stands for \<open>$\<close>, \<open>$&\<close> for the matched text,
  \<open>$`\<close> for what precedes the match and \<open>$'\<close> for what follows it; \<open>$\<close> before
  anything else (a digit, \<open><\<close>) is copied, like every other code unit.
\<close>

fun getSubstitution :: "string \<Rightarrow> string \<Rightarrow> nat \<Rightarrow> string \<Rightarrow> string" where
  "getSubstitution matched str position [] = []"
| "getSubstitution matched str position [c] = [c]"
| "getSubstitution matched str position (c # d # rest) =
     (if c = CHR ''$'' \<and> d = CHR ''$'' then
        CHR ''$'' # getSubstitution matched str position rest
      else if c = CHR ''$'' \<and> d = CHR 0x60 then
        take position str @ getSubstitution matched str position rest
      else if c = CHR ''$'' \<and> d = CHR ''&'' then
        matched @ getSubstitution matched str position rest
      else if c = CHR ''$'' \<and> d = CHR 0x27 then
        drop (min (position + length matched) (length str)) str
          @ getSubstitution matched str position rest
      else c # getSubstitution matched str position (d # rest))"

text \<open>\<open>s.replace(searchValue, replaceValue)\<close> with both arguments strings: the first
  match only.\<close>

definition replace :: "string \<Rightarrow> string \<Rightarrow> string \<Rightarrow> string" where
  "replace s searchValue replaceValue =
     (case stringIndexOf s searchValue 0 of
        None \<Rightarrow> s
      | Some position \<Rightarrow>
          take position s @ getSubstitution searchValue s position replaceValue
            @ drop (position + length searchValue) s)"

text \<open>
  \<open>parseInt(s, 10)\<close>: leading white space, an optional sign, then the longest run of
  decimal digits; \<open>NaN\<close> when the run is empty. The value is that of JavaScript for
  every run of digits that denotes at most \<open>2^53\<close>; a longer one JavaScript rounds to the
  nearest double, which is left out here. The one text the program parses is the content
  of the exit-status file, where the shell's \<open>echo $?\<close> writes a status from 0 to 255.
\<close>

definition isDigit :: "char \<Rightarrow> bool" where
  "isDigit c = (c \<in> set ''0123456789'')"

definition digitValue :: "char \<Rightarrow> nat" where
  "digitValue c = of_char c - 48"

definition parseInt :: "string \<Rightarrow> number" where
  "parseInt s =
     (let S = dropWhile isWhiteSpace s;
          (sign, S') = (case S of
             [] \<Rightarrow> (1, S)
           | c # cs \<Rightarrow> if c = CHR ''-'' then (- 1, cs)
                       else if c = CHR ''+'' then (1, cs) else (1, S));
          Z = takeWhile isDigit S'
      in if Z = [] then NaN
         else Num (sign * int (foldl (\<lambda>a c. 10 * a + digitValue c) 0 Z)))"

section \<open>Shell quoting\<close>

text \<open>
  \<open>escapeShell(str) = `'${str.replace(/'/g, "'\\''")}'`\<close>: every single quote becomes
  the four code units \<open>'\''\<close> (the replacement text holds no \<open>$\<close>, so it is
  inserted as it is), and the result is wrapped in single quotes.
\<close>

definition escapeQuote :: "char \<Rightarrow> string" where
  "escapeQuote c = (if c = CHR 0x27 then sq @ [CHR 0x5C] @ sq @ sq else [c])"

definition escapeShell :: "string \<Rightarrow> string" where
  "escapeShell str = sq @ concat (map escapeQuote str) @ sq"

section \<open>The Connector: \<open>sshExec\<close>\<close>

text \<open>
  What the spawned \<open>ssh\<close> process does is the environment's choice: it closes with the
  collected stdout and stderr and an exit status, which is missing (\<open>null\<close>) when the
  process was ended by a signal, or it emits \<open>error\<close> and the promise is rejected.
\<close>

datatype transport = Closed string string "int option" | SpawnError string

record exec_result =
  stdout :: string
  stderr :: string
  exitCode :: number

text \<open>
  The process state and its environment. \<open>ssh k\<close> is what the \<open>k\<close>-th spawned
  process does and how many milliseconds pass until then; \<open>spawned\<close> records each
  spawn (remote command and \<open>timeout\<close> option) in order. The \<open>timeout\<close> option
  makes Node end a process that runs longer; such a process closes without an exit
  status, which is one of the things \<open>ssh k\<close> can say.

  \<open>now\<close> is the clock. It moves while the program waits for an \<open>ssh\<close> or sleeps,
  and it may move before any reading of \<open>Date.now()\<close>: \<open>drift k\<close> is how many
  milliseconds pass just before the \<open>k\<close>-th reading (time the program spent running,
  and whatever a timer overshoots), \<open>readings\<close> counts the readings made so far. Two
  readings in a row, as in lines 57 and 58, need not be equal.
\<close>

record world =
  currentWorkingDirectory :: "string option"
  now :: int
  spawned :: "(string \<times> int) list"
  ssh :: "nat \<Rightarrow> transport \<times> nat"
  REMOTE_RELAY_TMUX_SESSION :: "string option"
  readings :: nat
  drift :: "nat \<Rightarrow> nat"

text \<open>\<open>Date.now()\<close>\<close>

definition dateNow :: "world \<Rightarrow> int \<times> world" where
  "dateNow w =
     (now w + int (drift w (readings w)),
      w\<lparr>now := now w + int (drift w (readings w)), readings := Suc (readings w)\<rparr>)"

definition TMUX_SESSION :: "world \<Rightarrow> string" where
  "TMUX_SESSION w = (case REMOTE_RELAY_TMUX_SESSION w of
       Some s \<Rightarrow> if s \<noteq> [] then s else ''claude-relay''
     | None \<Rightarrow> ''claude-relay'')"

text \<open>\<open>options.timeout || 60000\<close>\<close>

definition timeoutOrDefault :: "int option \<Rightarrow> int" where
  "timeoutOrDefault t = (case t of Some n \<Rightarrow> if n \<noteq> 0 then n else 60000 | None \<Rightarrow> 60000)"

definition sshExec :: "string \<Rightarrow> int option \<Rightarrow> world \<Rightarrow> (string + exec_result) \<times> world" where
  "sshExec command opt w =
     (let timeout = timeoutOrDefault opt;
          (outcome, ms) = ssh w (length (spawned w));
          w' = w\<lparr>now := now w + int ms, spawned := spawned w @ [(command, timeout)]\<rparr>
      in case outcome of
           Closed out err status \<Rightarrow>
             (Inr \<lparr>stdout = out, stderr = err,
                   exitCode = Num (case status of None \<Rightarrow> 0 | Some c \<Rightarrow> c)\<rparr>, w')
         | SpawnError e \<Rightarrow> (Inl e, w'))"

lemma sshExec_now: "now w \<le> now (snd (sshExec command opt w))"
  by (simp add: sshExec_def Let_def split: prod.splits transport.splits)

section \<open>The Bridge: \<open>tmuxExec\<close>\<close>

text \<open>
  The poll loop and what follows it. Each round reads the clock and, while less than the
  timeout has passed since \<open>startTime\<close>, asks for the exit-status file; a non-blank
  answer ends the call with the output file's content and the parsed status, after the
  clean-up; otherwise the loop sleeps 500 ms. Past the deadline the files are removed
  and the timeout result is returned. A rejected \<open>sshExec\<close> is not caught anywhere in
  \<open>tmuxExec\<close>: it rejects the call (\<open>Inl\<close>).
\<close>

function tmuxWait ::
  "string \<Rightarrow> string \<Rightarrow> int \<Rightarrow> int \<Rightarrow> world \<Rightarrow> (string + exec_result) \<times> world" where
  "tmuxWait outputFile exitCodeFile startTime timeout w =
     (case dateNow w of
        (t, w0) \<Rightarrow>
          if t - startTime < timeout then
            (case sshExec (''test -f '' @ exitCodeFile @ '' && cat '' @ exitCodeFile) None w0 of
               (Inl e, w1) \<Rightarrow> (Inl e, w1)
             | (Inr exitCodeCheck, w1) \<Rightarrow>
                 if trim (stdout exitCodeCheck) \<noteq> [] then
                   (case sshExec (''cat '' @ outputFile @ '' 2>/dev/null'') None w1 of
                      (Inl e, w2) \<Rightarrow> (Inl e, w2)
                    | (Inr out, w2) \<Rightarrow>
                        (case sshExec (''rm -f '' @ outputFile @ '' '' @ exitCodeFile) None w2 of
                           (Inl e, w3) \<Rightarrow> (Inl e, w3)
                         | (Inr _, w3) \<Rightarrow>
                             (Inr \<lparr>stdout = stdout out, stderr = [],
                                   exitCode = parseInt (trim (stdout exitCodeCheck))\<rparr>, w3)))
                 else tmuxWait outputFile exitCodeFile startTime timeout
                        (w1\<lparr>now := now w1 + 500\<rparr>))
          else
            (case sshExec (''rm -f '' @ outputFile @ '' '' @ exitCodeFile) None w0 of
               (Inl e, w1) \<Rightarrow> (Inl e, w1)
             | (Inr _, w1) \<Rightarrow>
                 (Inr \<lparr>stdout = [], stderr = ''Command timed out'', exitCode = Num 124\<rparr>, w1)))"
  by pat_completeness auto
termination
proof (relation "measure (\<lambda>(outputFile, exitCodeFile, startTime, timeout, w).
                            nat (startTime + timeout - now w))")
  show "wf (measure (\<lambda>(outputFile, exitCodeFile, startTime, timeout, w).
                       nat (startTime + timeout - now w)))"
    by simp
next
  fix outputFile exitCodeFile :: string and startTime timeout t :: int
    and w w0 y :: world and x :: "string + exec_result"
  assume reading: "(t, w0) = dateNow w"
    and running: "t - startTime < timeout"
    and call: "(x, y) = sshExec (''test -f '' @ exitCodeFile @ '' && cat '' @ exitCodeFile) None w0"
  from reading have "now w \<le> t" and "now w0 = t"
    by (simp_all add: dateNow_def)
  moreover from call
  have "y = snd (sshExec (''test -f '' @ exitCodeFile @ '' && cat '' @ exitCodeFile) None w0)"
    by (metis snd_conv)
  with sshExec_now have "now w0 \<le> now y" by simp
  ultimately have "now w \<le> now y" and "now w < startTime + timeout"
    using running by simp_all
  then show "((outputFile, exitCodeFile, startTime, timeout, y\<lparr>now := now y + 500\<rparr>),
         (outputFile, exitCodeFile, startTime, timeout, w))
        \<in> measure (\<lambda>(outputFile, exitCodeFile, startTime, timeout, w).
                      nat (startTime + timeout - now w))"
    by simp
qed

declare tmuxWait.simps [simp del]

definition tmuxExec :: "string \<Rightarrow> int option \<Rightarrow> world \<Rightarrow> (string + exec_result) \<times> world" where
  "tmuxExec command opt w =
     (let timeout = timeoutOrDefault opt;
          (t1, wa) = dateNow w;
          outputFile = ''/tmp/claude-relay-output-'' @ showInt t1;
          (t2, wb) = dateNow wa;
          exitCodeFile = ''/tmp/claude-relay-exit-'' @ showInt t2
      in case sshExec (''tmux has-session -t '' @ TMUX_SESSION wb
                        @ '' 2>/dev/null || tmux new-session -d -s '' @ TMUX_SESSION wb) None wb of
           (Inl e, w1) \<Rightarrow> (Inl e, w1)
         | (Inr _, w1) \<Rightarrow>
             (let fullCommand =
                    (case currentWorkingDirectory w1 of
                       Some d \<Rightarrow> if d \<noteq> [] then ''cd '' @ escapeShell d @ '' && '' @ command
                                 else command
                     | None \<Rightarrow> command);
                  wrappedCommand = ''{ '' @ fullCommand @ '' ; } > '' @ outputFile
                    @ '' 2>&1; echo $? > '' @ exitCodeFile
              in case sshExec (''tmux send-keys -t '' @ TMUX_SESSION w1 @ '' ''
                                @ escapeShell wrappedCommand @ '' Enter'') None w1 of
                   (Inl e, w2) \<Rightarrow> (Inl e, w2)
                 | (Inr _, w2) \<Rightarrow>
                     (case dateNow w2 of
                        (startTime, w3) \<Rightarrow>
                          tmuxWait outputFile exitCodeFile startTime timeout w3)))"

section \<open>The tools\<close>

text \<open>A tool's answer: the text of its one content block and the error flag.\<close>

record response =
  responseText :: string
  isError :: bool

definition remote_bash :: "string \<Rightarrow> int option \<Rightarrow> world \<Rightarrow> response \<times> world" where
  "remote_bash command timeout w =
     (case tmuxExec command timeout w of
        (Inl error, w1) \<Rightarrow>
          (\<lparr>responseText = ''Error executing command: '' @ error, isError = True\<rparr>, w1)
      | (Inr result, w1) \<Rightarrow>
          (let output = orElse (stdout result) ''(no output)'';
               status = (if exitCode result = Num 0 then ''success''
                         else ''failed (exit code: '' @ showNumber (exitCode result) @ '')'')
           in (\<lparr>responseText = ''Command: '' @ command @ nl @ ''Status: '' @ status @ nl
                  @ ''Working directory: '' @ orElseOpt (currentWorkingDirectory w1) ''(not set)''
                  @ nl @ nl @ ''Output:'' @ nl @ output,
                isError = False\<rparr>, w1)))"

text \<open>
  The path every file tool and \<open>remote_cd\<close> sends to the remote host:
  \<open>if (!filePath.startsWith("/") && currentWorkingDirectory) fullPath =
  `${currentWorkingDirectory}/${filePath}`\<close>.
\<close>

definition resolvePath :: "string option \<Rightarrow> string \<Rightarrow> string" where
  "resolvePath cwd filePath =
     (case cwd of
        Some d \<Rightarrow> if \<not> startsWith filePath ''/'' \<and> d \<noteq> [] then d @ ''/'' @ filePath
                  else filePath
      | None \<Rightarrow> filePath)"

definition readCommand :: "string \<Rightarrow> int option \<Rightarrow> int option \<Rightarrow> string" where
  "readCommand fullPath offset limit =
     (if truthyNum offset \<or> truthyNum limit then
        (let start = (case offset of Some n \<Rightarrow> if n \<noteq> 0 then n else 1 | None \<Rightarrow> 1)
         in case limit of
              Some l \<Rightarrow>
                if l \<noteq> 0 then
                  ''sed -n '' @ sq @ showInt start @ '','' @ showInt (start + l - 1) @ ''p'' @ sq
                    @ '' '' @ escapeShell fullPath @ '' | cat -n''
                else ''tail -n +'' @ showInt start @ '' '' @ escapeShell fullPath @ '' | cat -n''
            | None \<Rightarrow> ''tail -n +'' @ showInt start @ '' '' @ escapeShell fullPath @ '' | cat -n'')
      else ''cat -n '' @ escapeShell fullPath)"

definition remote_read :: "string \<Rightarrow> int option \<Rightarrow> int option \<Rightarrow> world \<Rightarrow> response \<times> world" where
  "remote_read filePath offset limit w =
     (let fullPath = resolvePath (currentWorkingDirectory w) filePath
      in case sshExec (readCommand fullPath offset limit) None w of
           (Inl error, w1) \<Rightarrow> (\<lparr>responseText = ''Error: '' @ error, isError = True\<rparr>, w1)
         | (Inr result, w1) \<Rightarrow>
             if exitCode result \<noteq> Num 0 then
               (\<lparr>responseText = ''Error reading file: '' @ orElse (stderr result) (stdout result),
                 isError = True\<rparr>, w1)
             else (\<lparr>responseText = orElse (stdout result) ''(empty file)'', isError = False\<rparr>, w1))"

text \<open>The here-document both \<open>remote_write\<close> and \<open>remote_edit\<close> send.\<close>

definition writeCommand :: "string \<Rightarrow> string \<Rightarrow> string" where
  "writeCommand fullPath content =
     ''cat > '' @ escapeShell fullPath @ '' << '' @ sq @ ''REMOTERELAY_EOF'' @ sq @ nl
       @ content @ nl @ ''REMOTERELAY_EOF''"

definition remote_write :: "string \<Rightarrow> string \<Rightarrow> world \<Rightarrow> response \<times> world" where
  "remote_write filePath content w =
     (let fullPath = resolvePath (currentWorkingDirectory w) filePath
      in case sshExec (writeCommand fullPath content) None w of
           (Inl error, w1) \<Rightarrow> (\<lparr>responseText = ''Error: '' @ error, isError = True\<rparr>, w1)
         | (Inr result, w1) \<Rightarrow>
             if exitCode result \<noteq> Num 0 then
               (\<lparr>responseText = ''Error writing file: '' @ stderr result, isError = True\<rparr>, w1)
             else (\<lparr>responseText = ''Successfully wrote to '' @ fullPath, isError = False\<rparr>, w1))"

definition remote_edit :: "string \<Rightarrow> string \<Rightarrow> string \<Rightarrow> world \<Rightarrow> response \<times> world" where
  "remote_edit filePath old_string new_string w =
     (let fullPath = resolvePath (currentWorkingDirectory w) filePath
      in case sshExec (''cat '' @ escapeShell fullPath) None w of
           (Inl error, w1) \<Rightarrow> (\<lparr>responseText = ''Error: '' @ error, isError = True\<rparr>, w1)
         | (Inr readResult, w1) \<Rightarrow>
             if exitCode readResult \<noteq> Num 0 then
               (\<lparr>responseText = ''Error reading file: '' @ stderr readResult, isError = True\<rparr>, w1)
             else
               (let originalContent = stdout readResult;
                    occurrences = int (length (split originalContent old_string)) - 1
                in if occurrences = 0 then
                     (\<lparr>responseText = ''Error: old_string not found in file'', isError = True\<rparr>, w1)
                   else if occurrences > 1 then
                     (\<lparr>responseText = ''Error: old_string found '' @ showInt occurrences
                        @ '' times. Please provide more context to make it unique.'',
                       isError = True\<rparr>, w1)
                   else
                     (let newContent = replace originalContent old_string new_string
                      in case sshExec (writeCommand fullPath newContent) None w1 of
                           (Inl error, w2) \<Rightarrow> (\<lparr>responseText = ''Error: '' @ error, isError = True\<rparr>, w2)
                         | (Inr writeResult, w2) \<Rightarrow>
                             if exitCode writeResult \<noteq> Num 0 then
                               (\<lparr>responseText = ''Error writing file: '' @ stderr writeResult,
                                 isError = True\<rparr>, w2)
                             else
                               (\<lparr>responseText = ''Successfully edited '' @ fullPath,
                                 isError = False\<rparr>, w2))))"

definition remote_grep :: "string \<Rightarrow> string option \<Rightarrow> string option \<Rightarrow> world \<Rightarrow> response \<times> world" where
  "remote_grep pattern searchPath include w =
     (let dir = orElseOpt searchPath (orElseOpt (currentWorkingDirectory w) ''.'');
          command = (case include of
             Some i \<Rightarrow>
               if i \<noteq> [] then
                 ''grep -rn --include='' @ escapeShell i @ '' '' @ escapeShell pattern
                   @ '' '' @ escapeShell dir
               else ''grep -rn '' @ escapeShell pattern @ '' '' @ escapeShell dir
           | None \<Rightarrow> ''grep -rn '' @ escapeShell pattern @ '' '' @ escapeShell dir)
            @ '' 2>/dev/null | head -50''
      in case sshExec command None w of
           (Inl error, w1) \<Rightarrow> (\<lparr>responseText = ''Error: '' @ error, isError = True\<rparr>, w1)
         | (Inr result, w1) \<Rightarrow>
             (\<lparr>responseText = ''Grep results for '' @ sq @ pattern @ sq @ '':'' @ nl
                 @ orElse (trim (stdout result)) ''(no matches)'',
               isError = False\<rparr>, w1))"

definition remote_cd :: "string \<Rightarrow> world \<Rightarrow> response \<times> world" where
  "remote_cd newPath w =
     (let targetPath = resolvePath (currentWorkingDirectory w) newPath
      in case sshExec (''cd '' @ escapeShell targetPath @ '' && pwd'') None w of
           (Inl error, w1) \<Rightarrow> (\<lparr>responseText = ''Error: '' @ error, isError = True\<rparr>, w1)
         | (Inr result, w1) \<Rightarrow>
             if exitCode result \<noteq> Num 0 then
               (\<lparr>responseText = ''Error: Directory does not exist or is not accessible: '' @ newPath,
                 isError = True\<rparr>, w1)
             else
               (let w2 = w1\<lparr>currentWorkingDirectory := Some (trim (stdout result))\<rparr>
                in (\<lparr>responseText = ''Working directory changed to: '' @ trim (stdout result),
                     isError = False\<rparr>, w2)))"

section \<open>The remote shell\<close>

text \<open>
  What the remote POSIX shell makes of a word built from single-quoted parts and
  backslash escapes (Shell Command Language, 2.2.1 and 2.2.2): inside single quotes
  every character stands for itself up to the closing quote; outside, a backslash makes
  the next character literal (and removes a following line feed). The flag says whether
  a quote is open. Any other character outside quotes would be open to expansion,
  splitting or globbing, and an unclosed quote is no word: both give \<open>None\<close>.
\<close>

fun shellWord :: "bool \<Rightarrow> string \<Rightarrow> string option" where
  "shellWord False [] = Some []"
| "shellWord True [] = None"
| "shellWord True (c # cs) =
     (if c = CHR 0x27 then shellWord False cs
      else map_option ((#) c) (shellWord True cs))"
| "shellWord False (c # cs) =
     (if c = CHR 0x27 then shellWord True cs
      else if c = CHR 0x5C then
        (case cs of
           [] \<Rightarrow> None
         | d # ds \<Rightarrow> if d = CHR 0x0A then shellWord False ds
                     else map_option ((#) d) (shellWord False ds))
      else None)"

text \<open>
  What the remote shell feeds to a command from a here-document with a quoted delimiter
  (Shell Command Language, 2.7.4): the lines of the text that follows the command line,
  each with its line feed and none expanded, up to the first line that is the delimiter
  and nothing else. (The commands of this program always end in a delimiter line, so
  the case of a missing delimiter does not arise.)
\<close>

fun linesOf :: "string \<Rightarrow> string list" where
  "linesOf [] = [[]]"
| "linesOf (c # cs) =
     (if c = CHR 0x0A then [] # linesOf cs
      else case linesOf cs of
             [] \<Rightarrow> [[c]]
           | l # ls \<Rightarrow> (c # l) # ls)"

definition hereDocument :: "string \<Rightarrow> string \<Rightarrow> string" where
  "hereDocument delimiter text =
     concat (map (\<lambda>l. l @ nl) (takeWhile (\<lambda>l. l \<noteq> delimiter) (linesOf text)))"



text \<open>
  \<open>cat -n\<close> (GNU coreutils): every line of the file behind its number, counted from 1,
  right-aligned in six columns and followed by a tab. A last line without a line feed is
  printed without one; an empty file prints nothing.
\<close>

definition pad :: "string \<Rightarrow> string" where
  "pad d = replicate (6 - length d) (CHR 0x20) @ d"

fun numbered :: "nat \<Rightarrow> string list \<Rightarrow> string list" where
  "numbered n [] = []"
| "numbered n (l # ls) = (pad (showInt (int n)) @ [CHR 0x09] @ l) # numbered (Suc n) ls"










section \<open>Notions the properties are stated with\<close>

text \<open>\<open>r\<close> occurs in \<open>s\<close> at index \<open>i\<close>.\<close>

definition occursAt :: "string \<Rightarrow> string \<Rightarrow> nat \<Rightarrow> bool" where
  "occursAt s r i = (i \<le> length s \<and> startsWith (drop i s) r)"

text \<open>
  Two ways to describe what an \<open>ssh\<close> process does: it closes (the promise
  resolves, whatever the exit status), and it closes with a stdout that trims to the
  empty string, as the poll for a missing or empty exit-status file does.
\<close>

definition closes :: "transport \<times> nat \<Rightarrow> bool" where
  "closes t = (case fst t of Closed out err status \<Rightarrow> True | SpawnError e \<Rightarrow> False)"

definition blank :: "transport \<times> nat \<Rightarrow> bool" where
  "blank t = (case fst t of Closed out err status \<Rightarrow> trim out = [] | SpawnError e \<Rightarrow> False)"

text \<open>
  Every poll for the exit-status file that was spawned on the way from \<open>w\<close> to
  \<open>w'\<close> closed with a blank stdout: the exit-status file never showed.
\<close>

definition pollsBlank :: "world \<Rightarrow> world \<Rightarrow> bool" where
  "pollsBlank w w' =
     list_all (\<lambda>k. startsWith (fst (spawned w' ! k)) ''test -f '' \<longrightarrow> blank (ssh w k))
       [length (spawned w) ..< length (spawned w')]"


section \<open>Worlds for the examples\<close>

text \<open>A process at some instant, with nothing spawned yet, whose every \<open>ssh\<close>
  behaves as \<open>f\<close> says, and whose clock stands still between its waits.\<close>

definition fresh :: "string option \<Rightarrow> (nat \<Rightarrow> transport \<times> nat) \<Rightarrow> world" where
  "fresh cwd f = \<lparr>currentWorkingDirectory = cwd, now = 1700000000000, spawned = [],
     ssh = f, REMOTE_RELAY_TMUX_SESSION = None, readings = 0, drift = (\<lambda>k. 0)\<rparr>"

text \<open>An \<open>ssh\<close> that hangs until the spawn timeout ends it: no output, no exit status.\<close>

definition killed :: "nat \<Rightarrow> transport \<times> nat" where
  "killed k = (Closed [] [] None, 60000)"

text \<open>A \<open>grep\<close> that fails on a missing directory (its stderr goes to \<open>/dev/null\<close>).\<close>

definition grepFails :: "nat \<Rightarrow> transport \<times> nat" where
  "grepFails k = (Closed [] [] (Some 2), 35)"

text \<open>A \<open>cd\<close> probe that fails, and one that succeeds.\<close>

definition cdFails :: "nat \<Rightarrow> transport \<times> nat" where
  "cdFails k = (Closed [] ''bash: line 1: cd: /nope: No such file or directory'' (Some 1), 35)"

definition cdWorks :: "nat \<Rightarrow> transport \<times> nat" where
  "cdWorks k = (Closed (''/var/log'' @ nl) [] (Some 0), 35)"

text \<open>A remote host on which the exit-status file never appears: every \<open>ssh\<close>
  closes after 40 ms with no output.\<close>

definition silent :: "nat \<Rightarrow> transport \<times> nat" where
  "silent k = (Closed [] [] (Some 0), 40)"

text \<open>A host on which the exit-status file never appears either, and every command,
  the clean-up included, exits with status 1.\<close>

definition failing :: "nat \<Rightarrow> transport \<times> nat" where
  "failing k = (Closed [] ''Operation not permitted'' (Some 1), 40)"

text \<open>The host \<open>silent\<close>, but the fifth \<open>ssh\<close> prints a complaint and exits with
  status 1.\<close>

definition cleanupFails :: "nat \<Rightarrow> transport \<times> nat" where
  "cleanupFails k =
     (if k = 4 then (Closed ''rm: cannot remove'' ''Operation not permitted'' (Some 1), 40)
      else (Closed [] [] (Some 0), 40))"

text \<open>A process whose fourth reading of the clock, the first one of the poll loop, comes
  \<open>d\<close> ms after the third, the one that sets \<open>startTime\<close>.\<close>

definition late :: "nat \<Rightarrow> world \<Rightarrow> world" where
  "late d w = w\<lparr>drift := (\<lambda>k. if k = 3 then d else 0)\<rparr>"

text \<open>The host \<open>silent\<close>, but the fifth \<open>ssh\<close> cannot be spawned.\<close>

definition rmRejected :: "nat \<Rightarrow> transport \<times> nat" where
  "rmRejected k = (if k = 4 then (SpawnError ''Error: spawn ssh EAGAIN'', 0)
                   else (Closed [] [] (Some 0), 40))"

text \<open>A host on which \<open>cat\<close> prints a one-line shell script.\<close>

definition catScript :: "nat \<Rightarrow> transport \<times> nat" where
  "catScript k = (Closed (''echo pid'' @ nl) [] (Some 0), 35)"





section \<open>Facts about the Connector\<close>

lemma sshExec_frame:
  "sshExec command opt w = (r, w') \<Longrightarrow>
     currentWorkingDirectory w' = currentWorkingDirectory w \<and> ssh w' = ssh w
     \<and> REMOTE_RELAY_TMUX_SESSION w' = REMOTE_RELAY_TMUX_SESSION w
     \<and> spawned w' = spawned w @ [(command, timeoutOrDefault opt)]"
  by (auto simp: sshExec_def Let_def split: prod.splits transport.splits)

lemma sshExec_spawned:
  "spawned (snd (sshExec command opt w)) = spawned w @ [(command, timeoutOrDefault opt)]"
  by (cases "sshExec command opt w") (simp add: sshExec_frame)

lemma dateNow_frame:
  "dateNow w = (t, w0) \<Longrightarrow>
     spawned w0 = spawned w \<and> ssh w0 = ssh w \<and> now w0 = t \<and> now w \<le> t
     \<and> currentWorkingDirectory w0 = currentWorkingDirectory w
     \<and> REMOTE_RELAY_TMUX_SESSION w0 = REMOTE_RELAY_TMUX_SESSION w"
  by (auto simp: dateNow_def)

lemma sshExec_Closed:
  "ssh w (length (spawned w)) = (Closed out err status, ms) \<Longrightarrow>
     sshExec command opt w =
       (Inr \<lparr>stdout = out, stderr = err,
             exitCode = Num (case status of None \<Rightarrow> 0 | Some c \<Rightarrow> c)\<rparr>,
        w\<lparr>now := now w + int ms, spawned := spawned w @ [(command, timeoutOrDefault opt)]\<rparr>)"
  by (simp add: sshExec_def)

lemma sshExec_SpawnError:
  "ssh w (length (spawned w)) = (SpawnError e, ms) \<Longrightarrow>
     sshExec command opt w =
       (Inl e, w\<lparr>now := now w + int ms, spawned := spawned w @ [(command, timeoutOrDefault opt)]\<rparr>)"
  by (simp add: sshExec_def)

text \<open>
  C8. When the \<open>ssh\<close> process closes without an exit status, \<open>sshExec\<close> resolves
  with \<open>exitCode\<close> 0; and a call without a timeout spawns the process with the
  timeout 60000.
\<close>

theorem sshExec_missing_status:
  "(ssh w (length (spawned w)) = (Closed out err None, ms) \<longrightarrow>
      fst (sshExec command opt w) = Inr \<lparr>stdout = out, stderr = err, exitCode = Num 0\<rparr>)
   \<and> spawned (snd (sshExec command None w)) = spawned w @ [(command, 60000)]"
  by (auto simp: sshExec_def Let_def timeoutOrDefault_def split: prod.splits transport.splits)

theorem sshExec_missing_status_witness:
  "ssh (fresh None killed) (length (spawned (fresh None killed))) = (Closed [] [] None, 60000)
   \<and> fst (sshExec ''pwd'' None (fresh None killed))
       = Inr \<lparr>stdout = [], stderr = [], exitCode = Num 0\<rparr>
   \<and> spawned (snd (sshExec ''pwd'' None (fresh None killed))) = [(''pwd'', 60000)]"
  using sshExec_missing_status [of "fresh None killed" "[]" "[]" 60000 "''pwd''" None]
  by (simp add: fresh_def killed_def)

text \<open>
  C9. Whenever the remote command of \<open>remote_grep\<close> completes, with whatever exit
  status and stderr, the answer is not flagged as an error and depends on the trimmed
  stdout alone: blank stdout gives \<open>(no matches)\<close>, be it from a search that found
  nothing or from a \<open>grep\<close> that failed.
\<close>

theorem remote_grep_never_flags:
  assumes "ssh w (length (spawned w)) = (Closed out err status, ms)"
  shows "fst (remote_grep pattern searchPath include w) =
           \<lparr>responseText = ''Grep results for '' @ sq @ pattern @ sq @ '':'' @ nl
              @ (if trim out = [] then ''(no matches)'' else trim out),
            isError = False\<rparr>"
  using assms by (simp add: remote_grep_def sshExec_Closed orElse_def Let_def)

theorem remote_grep_never_flags_witness:
  "ssh (fresh None grepFails) (length (spawned (fresh None grepFails)))
     = (Closed [] [] (Some 2), 35)
   \<and> fst (remote_grep ''TODO'' (Some ''/nope'') None (fresh None grepFails)) =
       \<lparr>responseText = ''Grep results for '' @ sq @ ''TODO'' @ sq @ '':'' @ nl @ ''(no matches)'',
        isError = False\<rparr>"
  using remote_grep_never_flags
    [of "fresh None grepFails" "[]" "[]" "Some 2" 35 "''TODO''" "Some ''/nope''" None]
  by (simp add: fresh_def grepFails_def trim_def)

text \<open>
  C3. When the probe \<open>cd <target> && pwd\<close> of \<open>remote_cd\<close> completes, the working
  directory after the call is the probe's trimmed stdout if its exit code is 0, and the
  value it had before the call otherwise.
\<close>

theorem remote_cd_state:
  assumes "fst (sshExec (''cd '' @ escapeShell (resolvePath (currentWorkingDirectory w) newPath)
                          @ '' && pwd'') None w) = Inr result"
  shows "currentWorkingDirectory (snd (remote_cd newPath w)) =
           (if exitCode result = Num 0 then Some (trim (stdout result))
            else currentWorkingDirectory w)"
proof -
  obtain r w1 where call:
    "sshExec (''cd '' @ escapeShell (resolvePath (currentWorkingDirectory w) newPath)
               @ '' && pwd'') None w = (r, w1)"
    by (cases "sshExec (''cd '' @ escapeShell (resolvePath (currentWorkingDirectory w) newPath)
                         @ '' && pwd'') None w")
  with assms have r: "r = Inr result" by simp
  from sshExec_frame [OF call] have "currentWorkingDirectory w1 = currentWorkingDirectory w"
    by simp
  with call r show ?thesis by (simp add: remote_cd_def Let_def)
qed

theorem remote_cd_state_witness:
  "fst (sshExec (''cd '' @ escapeShell (resolvePath (currentWorkingDirectory
           (fresh (Some ''/home/u'') cdFails)) ''/nope'') @ '' && pwd'') None
         (fresh (Some ''/home/u'') cdFails))
     = Inr \<lparr>stdout = [], stderr = ''bash: line 1: cd: /nope: No such file or directory'',
            exitCode = Num 1\<rparr>
   \<and> currentWorkingDirectory (snd (remote_cd ''/nope'' (fresh (Some ''/home/u'') cdFails)))
       = Some ''/home/u''
   \<and> fst (sshExec (''cd '' @ escapeShell (resolvePath (currentWorkingDirectory
           (fresh None cdWorks)) ''/var/log/'') @ '' && pwd'') None (fresh None cdWorks))
     = Inr \<lparr>stdout = ''/var/log'' @ nl, stderr = [], exitCode = Num 0\<rparr>
   \<and> currentWorkingDirectory (snd (remote_cd ''/var/log/'' (fresh None cdWorks)))
       = Some ''/var/log''"
  using remote_cd_state [of "fresh (Some ''/home/u'') cdFails" "''/nope''"
      "\<lparr>stdout = [], stderr = ''bash: line 1: cd: /nope: No such file or directory'',
        exitCode = Num 1\<rparr>"]
    remote_cd_state [of "fresh None cdWorks" "''/var/log/''"
      "\<lparr>stdout = ''/var/log'' @ nl, stderr = [], exitCode = Num 0\<rparr>"]
  by (simp add: fresh_def cdFails_def cdWorks_def sshExec_def trim_def nl_def isWhiteSpace_def)

lemma shellWord_quoted_body:
  "shellWord True (concat (map escapeQuote str) @ sq) = Some str"
  by (induction str) (simp_all add: escapeQuote_def sq_def)

lemma escapeQuote_plain:
  "concat (map escapeQuote (filter (\<lambda>c. c \<noteq> CHR 0x27) str)) = filter (\<lambda>c. c \<noteq> CHR 0x27) str"
  by (induction str) (simp_all add: escapeQuote_def)

text \<open>
  C7. For every string, the remote shell reads the text \<open>escapeShell\<close> produces as one
  word whose value is the string itself, nothing of it being left open to expansion,
  splitting or globbing. The text is the string between single quotes when the string
  has no single quote; and a single quote between \<open>a\<close> and \<open>b\<close> comes out as the
  quoted \<open>a\<close>, a backslash-escaped quote, and the quoted \<open>b\<close>.
\<close>

theorem escapeShell_roundtrip:
  "shellWord False (escapeShell str) = Some str
   \<and> escapeShell (filter (\<lambda>c. c \<noteq> CHR 0x27) str) = sq @ filter (\<lambda>c. c \<noteq> CHR 0x27) str @ sq
   \<and> escapeShell (a @ sq @ b) = escapeShell a @ [CHR 0x5C] @ sq @ escapeShell b"
proof -
  have "shellWord False (escapeShell str) = Some str"
    using shellWord_quoted_body [of str] by (simp add: escapeShell_def sq_def)
  moreover have "escapeShell (filter (\<lambda>c. c \<noteq> CHR 0x27) str)
      = sq @ filter (\<lambda>c. c \<noteq> CHR 0x27) str @ sq"
    by (simp only: escapeShell_def escapeQuote_plain)
  moreover have "escapeShell (a @ sq @ b) = escapeShell a @ [CHR 0x5C] @ sq @ escapeShell b"
    by (simp add: escapeShell_def escapeQuote_def sq_def)
  ultimately show ?thesis by blast
qed

section \<open>The Bridge at its deadline\<close>

lemma pollsBlank_iff:
  "pollsBlank w w' =
     (\<forall>k. length (spawned w) \<le> k \<and> k < length (spawned w')
          \<and> startsWith (fst (spawned w' ! k)) ''test -f '' \<longrightarrow> blank (ssh w k))"
  by (auto simp: pollsBlank_def list_all_iff)

lemma closesE:
  assumes "closes t"
  obtains out err status ms where "t = (Closed out err status, ms)"
  using assms by (cases t; cases "fst t") (auto simp: closes_def)

lemma blankE:
  assumes "blank t"
  obtains out err status ms where "t = (Closed out err status, ms)" and "trim out = []"
  using assms by (cases t; cases "fst t") (auto simp: blank_def)

lemma startsWith_append: "startsWith (p @ s) p"
  by (induction p) simp_all

text \<open>
  The loop leaves the environment as it is and only adds to the spawned commands: a
  poll first if the deadline has not passed at its first reading, the clean-up alone
  otherwise.
\<close>

lemma tmuxWait_frame:
  "ssh (snd (tmuxWait outputFile exitCodeFile startTime timeout w)) = ssh w
   \<and> (if fst (dateNow w) - startTime < timeout
        then \<exists>rest. spawned (snd (tmuxWait outputFile exitCodeFile startTime timeout w))
               = spawned w @ (''test -f '' @ exitCodeFile @ '' && cat '' @ exitCodeFile, 60000) # rest
        else spawned (snd (tmuxWait outputFile exitCodeFile startTime timeout w))
               = spawned w @ [(''rm -f '' @ outputFile @ '' '' @ exitCodeFile, 60000)])"
proof (induction outputFile exitCodeFile startTime timeout w rule: tmuxWait.induct)
  case (1 outputFile exitCodeFile startTime timeout w)
  let ?poll = "''test -f '' @ exitCodeFile @ '' && cat '' @ exitCodeFile"
  let ?cat = "''cat '' @ outputFile @ '' 2>/dev/null''"
  let ?rm = "''rm -f '' @ outputFile @ '' '' @ exitCodeFile"
  obtain t w0 where rd: "dateNow w = (t, w0)" by (cases "dateNow w")
  from dateNow_frame [OF rd] have w0: "spawned w0 = spawned w" "ssh w0 = ssh w" by simp_all
  show ?case
  proof (cases "t - startTime < timeout")
    case False
    obtain x y where call: "sshExec ?rm None w0 = (x, y)" by (cases "sshExec ?rm None w0")
    from sshExec_frame [OF call] w0
    have "spawned y = spawned w @ [(?rm, 60000)]" "ssh y = ssh w"
      by (simp_all add: timeoutOrDefault_def)
    moreover have "snd (tmuxWait outputFile exitCodeFile startTime timeout w) = y"
      using rd False call by (subst tmuxWait.simps) (simp split: sum.splits)
    ultimately show ?thesis using rd False by simp
  next
    case True
    obtain x y where call: "sshExec ?poll None w0 = (x, y)" by (cases "sshExec ?poll None w0")
    from sshExec_frame [OF call] w0
    have y: "spawned y = spawned w @ [(?poll, 60000)]" "ssh y = ssh w"
      by (simp_all add: timeoutOrDefault_def)
    show ?thesis
    proof (cases x)
      case (Inl e)
      have "snd (tmuxWait outputFile exitCodeFile startTime timeout w) = y"
        using rd True call Inl by (subst tmuxWait.simps) simp
      with y rd True show ?thesis by simp
    next
      case (Inr b)
      show ?thesis
      proof (cases "trim (stdout b) \<noteq> []")
        case False
        have "tmuxWait outputFile exitCodeFile startTime timeout w =
                tmuxWait outputFile exitCodeFile startTime timeout (y\<lparr>now := now y + 500\<rparr>)"
          using rd True call Inr False by (subst tmuxWait.simps) simp
        moreover from "1.IH" [OF rd [symmetric] True call [symmetric] Inr False]
        obtain rest where
          "ssh (snd (tmuxWait outputFile exitCodeFile startTime timeout (y\<lparr>now := now y + 500\<rparr>)))
             = ssh (y\<lparr>now := now y + 500\<rparr>)"
          "spawned (snd (tmuxWait outputFile exitCodeFile startTime timeout (y\<lparr>now := now y + 500\<rparr>)))
             = spawned (y\<lparr>now := now y + 500\<rparr>) @ rest"
          by (auto split: if_splits)
        ultimately show ?thesis using y rd True by simp
      next
        case nonblank: True
        obtain x2 y2 where call2: "sshExec ?cat None y = (x2, y2)" by (cases "sshExec ?cat None y")
        from sshExec_frame [OF call2] y
        have y2: "spawned y2 = spawned w @ [(?poll, 60000), (?cat, 60000)]" "ssh y2 = ssh w"
          by (simp_all add: timeoutOrDefault_def)
        show ?thesis
        proof (cases x2)
          case (Inl e)
          have "snd (tmuxWait outputFile exitCodeFile startTime timeout w) = y2"
            using rd True call Inr nonblank call2 Inl by (subst tmuxWait.simps) simp
          with y2 rd True show ?thesis by simp
        next
          case inr2: (Inr out)
          obtain x3 y3 where call3: "sshExec ?rm None y2 = (x3, y3)" by (cases "sshExec ?rm None y2")
          from sshExec_frame [OF call3] y2
          have y3: "spawned y3 = spawned w @ [(?poll, 60000), (?cat, 60000), (?rm, 60000)]"
            "ssh y3 = ssh w"
            by (simp_all add: timeoutOrDefault_def)
          have "snd (tmuxWait outputFile exitCodeFile startTime timeout w) = y3"
            using rd True call Inr nonblank call2 inr2 call3
            by (subst tmuxWait.simps) (simp split: sum.splits)
          with y3 rd True show ?thesis by simp
        qed
      qed
    qed
  qed
qed

text \<open>
  One round of the loop: a blank poll before the deadline leads to the sleep and the next
  round; a reading at or past the deadline leads to the clean-up and the end.
\<close>

lemma tmuxWait_poll_blank:
  assumes "fst (dateNow w) - startTime < timeout" and "blank (ssh w (length (spawned w)))"
  shows "tmuxWait outputFile exitCodeFile startTime timeout w =
           tmuxWait outputFile exitCodeFile startTime timeout
             ((snd (sshExec (''test -f '' @ exitCodeFile @ '' && cat '' @ exitCodeFile) None
                      (snd (dateNow w))))
              \<lparr>now := now (snd (sshExec (''test -f '' @ exitCodeFile @ '' && cat '' @ exitCodeFile)
                                   None (snd (dateNow w)))) + 500\<rparr>)"
proof -
  from assms(2) obtain out err status ms
    where "ssh w (length (spawned w)) = (Closed out err status, ms)" and "trim out = []"
    by (rule blankE)
  with assms(1) show ?thesis
    by (subst tmuxWait.simps)
       (simp add: dateNow_def sshExec_def timeoutOrDefault_def)
qed

lemma tmuxWait_past_deadline:
  assumes "\<not> fst (dateNow w) - startTime < timeout"
  shows "tmuxWait outputFile exitCodeFile startTime timeout w =
           (case sshExec (''rm -f '' @ outputFile @ '' '' @ exitCodeFile) None (snd (dateNow w)) of
              (Inl e, w1) \<Rightarrow> (Inl e, w1)
            | (Inr r, w1) \<Rightarrow>
                (Inr \<lparr>stdout = [], stderr = ''Command timed out'', exitCode = Num 124\<rparr>, w1))"
proof -
  obtain t w0 where rd: "dateNow w = (t, w0)" by (cases "dateNow w")
  with assms have "\<not> t - startTime < timeout" by simp
  with rd show ?thesis by (subst tmuxWait.simps) simp
qed

text \<open>
  While every poll comes back blank the loop only polls, at least 500 ms apart and never
  once the timeout has passed since \<open>startTime\<close>; then it removes the two files, and
  what the clean-up's \<open>ssh\<close> does decides between the timeout result and a rejection.
\<close>

lemma tmuxWait_blank:
  assumes "pollsBlank w (snd (tmuxWait outputFile exitCodeFile startTime timeout w))"
  shows "\<exists>n. spawned (snd (tmuxWait outputFile exitCodeFile startTime timeout w)) =
             spawned w
             @ replicate n (''test -f '' @ exitCodeFile @ '' && cat '' @ exitCodeFile, 60000)
             @ [(''rm -f '' @ outputFile @ '' '' @ exitCodeFile, 60000)]
           \<and> fst (tmuxWait outputFile exitCodeFile startTime timeout w) =
               (case fst (ssh w (length (spawned w) + n)) of
                  Closed out err status \<Rightarrow>
                    Inr \<lparr>stdout = [], stderr = ''Command timed out'', exitCode = Num 124\<rparr>
                | SpawnError e \<Rightarrow> Inl e)
           \<and> startTime + timeout \<le> now (snd (tmuxWait outputFile exitCodeFile startTime timeout w))
           \<and> (0 < n \<longrightarrow> now w - startTime + 500 * (int n - 1) < timeout)"
  using assms
proof (induction outputFile exitCodeFile startTime timeout w rule: tmuxWait.induct)
  case (1 outputFile exitCodeFile startTime timeout w)
  let ?poll = "''test -f '' @ exitCodeFile @ '' && cat '' @ exitCodeFile"
  let ?rm = "''rm -f '' @ outputFile @ '' '' @ exitCodeFile"
  let ?W = "tmuxWait outputFile exitCodeFile startTime timeout w"
  obtain t w0 where rd: "dateNow w = (t, w0)" by (cases "dateNow w")
  from dateNow_frame [OF rd]
  have w0: "spawned w0 = spawned w" "ssh w0 = ssh w" "now w0 = t" by simp_all
  show ?case
  proof (cases "t - startTime < timeout")
    case False
    obtain x y where call: "sshExec ?rm None w0 = (x, y)" by (cases "sshExec ?rm None w0")
    from sshExec_frame [OF call] w0
    have y: "spawned y = spawned w @ replicate 0 (?poll, 60000) @ [(?rm, 60000)]"
      by (simp add: timeoutOrDefault_def)
    have run: "?W = (case x of Inl e \<Rightarrow> (Inl e, y)
        | Inr r \<Rightarrow> (Inr \<lparr>stdout = [], stderr = ''Command timed out'', exitCode = Num 124\<rparr>, y))"
      using rd False call by (subst tmuxWait.simps) (simp split: sum.splits)
    have x: "x = (case fst (ssh w (length (spawned w) + 0)) of
        Closed out err status \<Rightarrow>
          Inr \<lparr>stdout = out, stderr = err,
                exitCode = Num (case status of None \<Rightarrow> 0 | Some c \<Rightarrow> c)\<rparr>
      | SpawnError e \<Rightarrow> Inl e)"
      using call w0 by (auto simp: sshExec_def Let_def split: prod.splits transport.splits)
    have "t \<le> now y"
      using sshExec_now [of w0 ?rm None] call w0 by simp
    with False have "startTime + timeout \<le> now y" by simp
    moreover have "snd ?W = y" using run by (simp split: sum.splits)
    moreover have "fst ?W = (case fst (ssh w (length (spawned w) + 0)) of
          Closed out err status \<Rightarrow>
            Inr \<lparr>stdout = [], stderr = ''Command timed out'', exitCode = Num 124\<rparr>
        | SpawnError e \<Rightarrow> Inl e)"
      using run x by (simp split: transport.splits)
    moreover have "0 < (0::nat) \<longrightarrow> now w - startTime + 500 * (int 0 - 1) < timeout" by simp
    ultimately show ?thesis using y by metis
  next
    case True
    from tmuxWait_frame [of outputFile exitCodeFile startTime timeout w] rd True
    obtain rest where pre: "spawned (snd ?W) = spawned w @ (?poll, 60000) # rest"
      by auto
    then have "length (spawned w) < length (spawned (snd ?W))"
      and "fst (spawned (snd ?W) ! length (spawned w)) = ?poll"
      by (simp_all add: nth_append)
    moreover have "startsWith ?poll ''test -f ''"
      using startsWith_append [of "''test -f ''"] by simp
    ultimately have "blank (ssh w (length (spawned w)))"
      using "1.prems" by (simp add: pollsBlank_iff)
    then obtain out err status ms
      where next_ssh: "ssh w0 (length (spawned w0)) = (Closed out err status, ms)"
        and out: "trim out = []"
      using w0 by (auto elim: blankE)
    define b where "b = \<lparr>stdout = out, stderr = err,
      exitCode = Num (case status of None \<Rightarrow> 0 | Some c \<Rightarrow> c)\<rparr>"
    define y where "y = w0\<lparr>now := now w0 + int ms, spawned := spawned w0 @ [(?poll, 60000)]\<rparr>"
    have call: "sshExec ?poll None w0 = (Inr b, y)"
      using sshExec_Closed [OF next_ssh, of ?poll None]
      by (simp add: b_def y_def timeoutOrDefault_def)
    have blank_b: "\<not> trim (stdout b) \<noteq> []" using out by (simp add: b_def)
    let ?y = "y\<lparr>now := now y + 500\<rparr>"
    have step: "?W = tmuxWait outputFile exitCodeFile startTime timeout ?y"
      using rd True call blank_b by (subst tmuxWait.simps) simp
    have y: "spawned ?y = spawned w @ [(?poll, 60000)]" "ssh ?y = ssh w"
      using w0 by (simp_all add: y_def)
    have "pollsBlank ?y (snd (tmuxWait outputFile exitCodeFile startTime timeout ?y))"
      using "1.prems" step y by (simp add: pollsBlank_iff)
    from "1.IH" [OF rd [symmetric] True call [symmetric] refl blank_b this]
    obtain n where rec:
      "spawned (snd (tmuxWait outputFile exitCodeFile startTime timeout ?y)) =
         spawned ?y @ replicate n (?poll, 60000) @ [(?rm, 60000)]"
      "fst (tmuxWait outputFile exitCodeFile startTime timeout ?y) =
         (case fst (ssh ?y (length (spawned ?y) + n)) of
            Closed out err status \<Rightarrow>
              Inr \<lparr>stdout = [], stderr = ''Command timed out'', exitCode = Num 124\<rparr>
          | SpawnError e \<Rightarrow> Inl e)"
      "startTime + timeout \<le> now (snd (tmuxWait outputFile exitCodeFile startTime timeout ?y))"
      "0 < n \<longrightarrow> now ?y - startTime + 500 * (int n - 1) < timeout"
      by blast
    have "spawned (snd ?W) = spawned w @ replicate (Suc n) (?poll, 60000) @ [(?rm, 60000)]"
      using rec(1) step y by simp
    moreover have "fst ?W = (case fst (ssh w (length (spawned w) + Suc n)) of
          Closed out err status \<Rightarrow>
            Inr \<lparr>stdout = [], stderr = ''Command timed out'', exitCode = Num 124\<rparr>
        | SpawnError e \<Rightarrow> Inl e)"
      using rec(2) step y by simp
    moreover have "startTime + timeout \<le> now (snd ?W)"
      using rec(3) step by simp
    moreover have "0 < Suc n \<longrightarrow> now w - startTime + 500 * (int (Suc n) - 1) < timeout"
    proof (cases n)
      case 0
      from dateNow_frame [OF rd] True show ?thesis using 0 by simp
    next
      case (Suc m)
      from dateNow_frame [OF rd] have "now w + 500 \<le> now ?y" by (simp add: y_def)
      with rec(4) Suc show ?thesis by simp
    qed
    ultimately show ?thesis by blast
  qed
qed

text \<open>When the two set-up commands complete, the call is the loop, started after them with
  the two file names made from the first two readings of the clock.\<close>

lemma tmuxExec_setup:
  assumes "closes (ssh w (length (spawned w)))" and "closes (ssh w (Suc (length (spawned w))))"
  shows "\<exists>w3. tmuxExec command opt w =
             tmuxWait (''/tmp/claude-relay-output-'' @ showInt (fst (dateNow w)))
               (''/tmp/claude-relay-exit-'' @ showInt (fst (dateNow (snd (dateNow w)))))
               (now w3) (timeoutOrDefault opt) w3
           \<and> length (spawned w3) = length (spawned w) + 2
           \<and> take (length (spawned w)) (spawned w3) = spawned w
           \<and> ssh w3 = ssh w \<and> now w \<le> now w3"
proof -
  obtain t1 wa where r1: "dateNow w = (t1, wa)" by (cases "dateNow w")
  obtain t2 wb where r2: "dateNow wa = (t2, wb)" by (cases "dateNow wa")
  from dateNow_frame [OF r1] dateNow_frame [OF r2]
  have wb: "spawned wb = spawned w" "ssh wb = ssh w" "now w \<le> now wb"
    "currentWorkingDirectory wb = currentWorkingDirectory w"
    "REMOTE_RELAY_TMUX_SESSION wb = REMOTE_RELAY_TMUX_SESSION w"
    by simp_all
  let ?out = "''/tmp/claude-relay-output-'' @ showInt t1"
  let ?exit = "''/tmp/claude-relay-exit-'' @ showInt t2"
  let ?c0 = "''tmux has-session -t '' @ TMUX_SESSION wb
               @ '' 2>/dev/null || tmux new-session -d -s '' @ TMUX_SESSION wb"
  from assms(1) wb obtain out0 err0 status0 ms0
    where ssh0: "ssh wb (length (spawned wb)) = (Closed out0 err0 status0, ms0)"
    by (auto elim: closesE)
  define w1 where "w1 = wb\<lparr>now := now wb + int ms0, spawned := spawned wb @ [(?c0, 60000)]\<rparr>"
  have call0: "sshExec ?c0 None wb =
      (Inr \<lparr>stdout = out0, stderr = err0,
            exitCode = Num (case status0 of None \<Rightarrow> 0 | Some c \<Rightarrow> c)\<rparr>, w1)"
    using sshExec_Closed [OF ssh0, of ?c0 None] by (simp add: w1_def timeoutOrDefault_def)
  define full where "full =
    (case currentWorkingDirectory w1 of
       Some d \<Rightarrow> if d \<noteq> [] then ''cd '' @ escapeShell d @ '' && '' @ command else command
     | None \<Rightarrow> command)"
  let ?c1 = "''tmux send-keys -t '' @ TMUX_SESSION w1 @ '' ''
               @ escapeShell (''{ '' @ full @ '' ; } > '' @ ?out @ '' 2>&1; echo $? > '' @ ?exit)
               @ '' Enter''"
  from assms(2) wb have "closes (ssh w1 (length (spawned w1)))" by (simp add: w1_def)
  then obtain out1 err1 status1 ms1
    where ssh1: "ssh w1 (length (spawned w1)) = (Closed out1 err1 status1, ms1)"
    by (rule closesE)
  define w2 where "w2 = w1\<lparr>now := now w1 + int ms1, spawned := spawned w1 @ [(?c1, 60000)]\<rparr>"
  have call1: "sshExec ?c1 None w1 =
      (Inr \<lparr>stdout = out1, stderr = err1,
            exitCode = Num (case status1 of None \<Rightarrow> 0 | Some c \<Rightarrow> c)\<rparr>, w2)"
    using sshExec_Closed [OF ssh1, of ?c1 None] by (simp add: w2_def timeoutOrDefault_def)
  obtain startTime w3 where r3: "dateNow w2 = (startTime, w3)" by (cases "dateNow w2")
  from dateNow_frame [OF r3]
  have w3: "spawned w3 = spawned w2" "ssh w3 = ssh w2" "now w3 = startTime" "now w2 \<le> now w3"
    by simp_all
  have "tmuxExec command opt w = tmuxWait ?out ?exit (now w3) (timeoutOrDefault opt) w3"
    using r1 r2 call0 call1 r3 w3(3) by (simp add: tmuxExec_def Let_def full_def)
  moreover have "length (spawned w3) = length (spawned w) + 2"
    "take (length (spawned w)) (spawned w3) = spawned w" "ssh w3 = ssh w" "now w \<le> now w3"
    using w3 wb by (simp_all add: w2_def w1_def)
  ultimately show ?thesis using r1 r2 by auto
qed

lemma pollsBlank_later:
  assumes "pollsBlank w w'" and "ssh w3 = ssh w" and "length (spawned w) \<le> length (spawned w3)"
  shows "pollsBlank w3 w'"
  using assms by (simp add: pollsBlank_iff)

lemma tmuxExec_deadline:
  assumes "closes (ssh w (length (spawned w)))"
    and "closes (ssh w (Suc (length (spawned w))))"
    and "pollsBlank w (snd (tmuxExec command opt w))"
  shows "\<exists>n. drop (length (spawned w) + 2) (spawned (snd (tmuxExec command opt w))) =
             replicate n
               (''test -f /tmp/claude-relay-exit-'' @ showInt (fst (dateNow (snd (dateNow w))))
                  @ '' && cat /tmp/claude-relay-exit-''
                  @ showInt (fst (dateNow (snd (dateNow w)))), 60000)
             @ [(''rm -f /tmp/claude-relay-output-'' @ showInt (fst (dateNow w))
                   @ '' /tmp/claude-relay-exit-''
                   @ showInt (fst (dateNow (snd (dateNow w)))), 60000)]
           \<and> fst (tmuxExec command opt w) =
               (case fst (ssh w (length (spawned w) + 2 + n)) of
                  Closed out err status \<Rightarrow>
                    Inr \<lparr>stdout = [], stderr = ''Command timed out'', exitCode = Num 124\<rparr>
                | SpawnError e \<Rightarrow> Inl e)
           \<and> (0 < n \<longrightarrow> 500 * (int n - 1) < timeoutOrDefault opt)
           \<and> now w + timeoutOrDefault opt \<le> now (snd (tmuxExec command opt w))"
proof -
  let ?out = "''/tmp/claude-relay-output-'' @ showInt (fst (dateNow w))"
  let ?exit = "''/tmp/claude-relay-exit-'' @ showInt (fst (dateNow (snd (dateNow w))))"
  from tmuxExec_setup [OF assms(1,2), of command opt]
  obtain w3 where run: "tmuxExec command opt w = tmuxWait ?out ?exit (now w3) (timeoutOrDefault opt) w3"
    and w3: "length (spawned w3) = length (spawned w) + 2" "ssh w3 = ssh w" "now w \<le> now w3"
    by blast
  from assms(3) run w3 have "pollsBlank w3 (snd (tmuxWait ?out ?exit (now w3) (timeoutOrDefault opt) w3))"
    by (simp add: pollsBlank_later)
  from tmuxWait_blank [OF this]
  obtain n where fin:
    "spawned (snd (tmuxWait ?out ?exit (now w3) (timeoutOrDefault opt) w3)) =
       spawned w3 @ replicate n (''test -f '' @ ?exit @ '' && cat '' @ ?exit, 60000)
       @ [(''rm -f '' @ ?out @ '' '' @ ?exit, 60000)]"
    "fst (tmuxWait ?out ?exit (now w3) (timeoutOrDefault opt) w3) =
       (case fst (ssh w3 (length (spawned w3) + n)) of
          Closed out err status \<Rightarrow>
            Inr \<lparr>stdout = [], stderr = ''Command timed out'', exitCode = Num 124\<rparr>
        | SpawnError e \<Rightarrow> Inl e)"
    "now w3 + timeoutOrDefault opt \<le> now (snd (tmuxWait ?out ?exit (now w3) (timeoutOrDefault opt) w3))"
    "0 < n \<longrightarrow> now w3 - now w3 + 500 * (int n - 1) < timeoutOrDefault opt"
    by blast
  have "drop (length (spawned w) + 2) (spawned (snd (tmuxExec command opt w))) =
          replicate n (''test -f '' @ ?exit @ '' && cat '' @ ?exit, 60000)
          @ [(''rm -f '' @ ?out @ '' '' @ ?exit, 60000)]"
    using fin(1) run w3(1) by simp
  moreover have "fst (tmuxExec command opt w) =
      (case fst (ssh w (length (spawned w) + 2 + n)) of
         Closed out err status \<Rightarrow>
           Inr \<lparr>stdout = [], stderr = ''Command timed out'', exitCode = Num 124\<rparr>
       | SpawnError e \<Rightarrow> Inl e)"
    using fin(2) run w3(1,2) by simp
  moreover have "0 < n \<longrightarrow> 500 * (int n - 1) < timeoutOrDefault opt"
    using fin(4) by simp
  moreover have "now w + timeoutOrDefault opt \<le> now (snd (tmuxExec command opt w))"
    using fin(3) run w3(3) by simp
  ultimately show ?thesis by (intro exI [of _ n]) simp
qed

text \<open>
  C4, as amended. Take a \<open>tmuxExec\<close> call whose two set-up commands complete and whose
  every poll for the exit-status file comes back blank. After the set-up it spawns
  nothing but polls, \<open>n\<close> of them, the first 500 ms or more before the last and none
  once the timeout has passed, and then one \<open>rm -f\<close> of both temporary files. If that
  clean-up completes, whatever it prints and whatever its exit status, the call
  resolves with stdout empty, stderr \<open>Command timed out\<close> and exit code 124; if the
  clean-up is rejected, the call is rejected with the same error. Either way the call
  does not end before the timeout has elapsed.
\<close>

theorem tmuxExec_timeout:
  assumes "closes (ssh w (length (spawned w)))"
    and "closes (ssh w (Suc (length (spawned w))))"
    and "pollsBlank w (snd (tmuxExec command opt w))"
  shows "\<exists>n. drop (length (spawned w) + 2) (spawned (snd (tmuxExec command opt w))) =
             replicate n
               (''test -f /tmp/claude-relay-exit-'' @ showInt (fst (dateNow (snd (dateNow w))))
                  @ '' && cat /tmp/claude-relay-exit-''
                  @ showInt (fst (dateNow (snd (dateNow w)))), 60000)
             @ [(''rm -f /tmp/claude-relay-output-'' @ showInt (fst (dateNow w))
                   @ '' /tmp/claude-relay-exit-''
                   @ showInt (fst (dateNow (snd (dateNow w)))), 60000)]
           \<and> fst (tmuxExec command opt w) =
               (case fst (ssh w (length (spawned w) + 2 + n)) of
                  Closed out err status \<Rightarrow>
                    Inr \<lparr>stdout = [], stderr = ''Command timed out'', exitCode = Num 124\<rparr>
                | SpawnError e \<Rightarrow> Inl e)
           \<and> (0 < n \<longrightarrow> 500 * (int n - 1) < timeoutOrDefault opt)
           \<and> now w + timeoutOrDefault opt \<le> now (snd (tmuxExec command opt w))"
  using assms by (rule tmuxExec_deadline)

theorem tmuxExec_timeout_witness:
  "closes (ssh (fresh (Some ''/srv'') cleanupFails)
      (length (spawned (fresh (Some ''/srv'') cleanupFails))))
   \<and> closes (ssh (fresh (Some ''/srv'') cleanupFails)
         (Suc (length (spawned (fresh (Some ''/srv'') cleanupFails)))))
   \<and> pollsBlank (fresh (Some ''/srv'') cleanupFails)
         (snd (tmuxExec ''sleep 5'' (Some 1000) (fresh (Some ''/srv'') cleanupFails)))
   \<and> map fst (drop 2 (spawned (snd (tmuxExec ''sleep 5'' (Some 1000)
         (fresh (Some ''/srv'') cleanupFails))))) =
       [''test -f /tmp/claude-relay-exit-1700000000000 && ''
          @ ''cat /tmp/claude-relay-exit-1700000000000'',
        ''test -f /tmp/claude-relay-exit-1700000000000 && ''
          @ ''cat /tmp/claude-relay-exit-1700000000000'',
        ''rm -f /tmp/claude-relay-output-1700000000000 ''
          @ ''/tmp/claude-relay-exit-1700000000000'']
   \<and> fst (ssh (fresh (Some ''/srv'') cleanupFails) 4) =
       Closed ''rm: cannot remove'' ''Operation not permitted'' (Some 1)
   \<and> fst (tmuxExec ''sleep 5'' (Some 1000) (fresh (Some ''/srv'') cleanupFails)) =
       Inr \<lparr>stdout = [], stderr = ''Command timed out'', exitCode = Num 124\<rparr>
   \<and> now (fresh (Some ''/srv'') cleanupFails) + 1000
       \<le> now (snd (tmuxExec ''sleep 5'' (Some 1000) (fresh (Some ''/srv'') cleanupFails)))"
proof -
  let ?w = "fresh (Some ''/srv'') cleanupFails"
  let ?w' = "snd (tmuxExec ''sleep 5'' (Some 1000) ?w)"
  have trace: "map fst (spawned ?w') =
      [''tmux has-session -t claude-relay 2>/dev/null || tmux new-session -d -s claude-relay'',
       ''tmux send-keys -t claude-relay '' @ sq
         @ ''{ cd '' @ sq @ [CHR 0x5C] @ sq @ sq @ ''/srv'' @ sq @ [CHR 0x5C] @ sq @ sq
         @ '' && sleep 5 ; } > /tmp/claude-relay-output-1700000000000 2>&1; ''
         @ ''echo $? > /tmp/claude-relay-exit-1700000000000'' @ sq @ '' Enter'',
       ''test -f /tmp/claude-relay-exit-1700000000000 && ''
         @ ''cat /tmp/claude-relay-exit-1700000000000'',
       ''test -f /tmp/claude-relay-exit-1700000000000 && ''
         @ ''cat /tmp/claude-relay-exit-1700000000000'',
       ''rm -f /tmp/claude-relay-output-1700000000000 ''
         @ ''/tmp/claude-relay-exit-1700000000000'']"
    by code_simp
  have len: "length (spawned ?w') = 5"
    using arg_cong [OF trace, of length] by simp
  have last_is_rm: "\<not> startsWith (fst (spawned ?w' ! 4)) ''test -f ''"
  proof -
    have "fst (spawned ?w' ! 4) = map fst (spawned ?w') ! 4" using len by simp
    then show ?thesis by (simp add: trace)
  qed
  have c0: "closes (ssh ?w (length (spawned ?w)))"
    and c1: "closes (ssh ?w (Suc (length (spawned ?w))))"
    and start: "length (spawned ?w) = 0"
    by (simp_all add: fresh_def cleanupFails_def closes_def)
  have polls: "pollsBlank ?w ?w'"
    unfolding pollsBlank_iff
  proof (intro allI impI)
    fix k
    assume k: "length (spawned ?w) \<le> k \<and> k < length (spawned ?w')
      \<and> startsWith (fst (spawned ?w' ! k)) ''test -f ''"
    with last_is_rm have "k \<noteq> 4" by auto
    then show "blank (ssh ?w k)"
      by (simp add: fresh_def cleanupFails_def blank_def trim_def)
  qed
  from tmuxExec_timeout [OF c0 c1 polls]
  obtain n where
    cmds: "length (drop (length (spawned ?w) + 2) (spawned ?w')) = Suc n"
    and res: "fst (tmuxExec ''sleep 5'' (Some 1000) ?w) =
      (case fst (ssh ?w (length (spawned ?w) + 2 + n)) of
         Closed out err status \<Rightarrow>
           Inr \<lparr>stdout = [], stderr = ''Command timed out'', exitCode = Num 124\<rparr>
       | SpawnError e \<Rightarrow> Inl e)"
    and late: "now ?w + timeoutOrDefault (Some 1000) \<le> now ?w'"
    by (metis length_append_singleton length_replicate)
  from cmds len start have "n = 2" by simp
  with res start have "fst (tmuxExec ''sleep 5'' (Some 1000) ?w) =
      Inr \<lparr>stdout = [], stderr = ''Command timed out'', exitCode = Num 124\<rparr>"
    by (simp add: fresh_def cleanupFails_def)
  moreover have "fst (ssh ?w 4) = Closed ''rm: cannot remove'' ''Operation not permitted'' (Some 1)"
    by (simp add: fresh_def cleanupFails_def)
  moreover have "map fst (drop 2 (spawned ?w')) =
      [''test -f /tmp/claude-relay-exit-1700000000000 && ''
         @ ''cat /tmp/claude-relay-exit-1700000000000'',
       ''test -f /tmp/claude-relay-exit-1700000000000 && ''
         @ ''cat /tmp/claude-relay-exit-1700000000000'',
       ''rm -f /tmp/claude-relay-output-1700000000000 ''
         @ ''/tmp/claude-relay-exit-1700000000000'']"
    using trace by (simp add: drop_map [symmetric])
  moreover from late have "now ?w + 1000 \<le> now ?w'" by (simp add: timeoutOrDefault_def)
  ultimately show ?thesis using c0 c1 polls by blast
qed

text \<open>
  C4 as stated fails when the clean-up itself cannot be run: with a timeout of 1000 ms
  and polls 540 ms apart, the fifth \<open>ssh\<close> is the clean-up; its rejection rejects the
  whole call, no result with exit code 124 is returned, and \<open>remote_bash\<close> answers
  with an error.
\<close>

theorem tmuxExec_timeout_counterexample:
  "fst (tmuxExec ''sleep 5'' (Some 1000) (fresh None rmRejected)) = Inl ''Error: spawn ssh EAGAIN''
   \<and> spawned (snd (tmuxExec ''sleep 5'' (Some 1000) (fresh None rmRejected))) =
       [(''tmux has-session -t claude-relay 2>/dev/null || tmux new-session -d -s claude-relay'',
         60000),
        (''tmux send-keys -t claude-relay '' @ sq
           @ ''{ sleep 5 ; } > /tmp/claude-relay-output-1700000000000 2>&1; ''
           @ ''echo $? > /tmp/claude-relay-exit-1700000000000'' @ sq @ '' Enter'', 60000),
        (''test -f /tmp/claude-relay-exit-1700000000000 && ''
           @ ''cat /tmp/claude-relay-exit-1700000000000'', 60000),
        (''test -f /tmp/claude-relay-exit-1700000000000 && ''
           @ ''cat /tmp/claude-relay-exit-1700000000000'', 60000),
        (''rm -f /tmp/claude-relay-output-1700000000000 ''
           @ ''/tmp/claude-relay-exit-1700000000000'', 60000)]
   \<and> now (snd (tmuxExec ''sleep 5'' (Some 1000) (fresh None rmRejected))) = 1700000001160
   \<and> fst (remote_bash ''sleep 5'' (Some 1000) (fresh None rmRejected)) =
       \<lparr>responseText = ''Error executing command: Error: spawn ssh EAGAIN'', isError = True\<rparr>"
  by code_simp

text \<open>
  C10. A timeout of 0 is the same call as one without a timeout, for \<open>sshExec\<close> and
  for \<open>tmuxExec\<close>. The process is spawned with the timeout 60000. The poll loop runs
  against a deadline of 60000 ms: when the set-up completes and every poll comes back
  blank, the call does not end before 60000 ms have elapsed, and it polls no more once
  they have, so that all its polls but the last fall within 60000 ms at 500 ms or more
  apart.
\<close>

theorem zero_timeout_is_default:
  "sshExec command (Some 0) w = sshExec command None w
   \<and> spawned (snd (sshExec command (Some 0) w)) = spawned w @ [(command, 60000)]
   \<and> tmuxExec command (Some 0) w = tmuxExec command None w
   \<and> tmuxExec command (Some 0) w = tmuxExec command (Some 60000) w
   \<and> (closes (ssh w (length (spawned w))) \<and> closes (ssh w (Suc (length (spawned w))))
        \<and> pollsBlank w (snd (tmuxExec command (Some 0) w))
      \<longrightarrow> now w + 60000 \<le> now (snd (tmuxExec command (Some 0) w))
        \<and> (\<exists>n. length (spawned (snd (tmuxExec command (Some 0) w)))
                  = length (spawned w) + 2 + n + 1
               \<and> (0 < n \<longrightarrow> 500 * (int n - 1) < 60000)))"
proof -
  have "sshExec command (Some 0) w = sshExec command None w"
    and "spawned (snd (sshExec command (Some 0) w)) = spawned w @ [(command, 60000)]"
    and "tmuxExec command (Some 0) w = tmuxExec command None w"
    and "tmuxExec command (Some 0) w = tmuxExec command (Some 60000) w"
    by (simp_all add: sshExec_def tmuxExec_def Let_def timeoutOrDefault_def
          split: prod.splits transport.splits)
  moreover have "now w + 60000 \<le> now (snd (tmuxExec command (Some 0) w))
      \<and> (\<exists>n. length (spawned (snd (tmuxExec command (Some 0) w)))
                = length (spawned w) + 2 + n + 1
             \<and> (0 < n \<longrightarrow> 500 * (int n - 1) < 60000))"
    if c0: "closes (ssh w (length (spawned w)))"
      and c1: "closes (ssh w (Suc (length (spawned w))))"
      and polls: "pollsBlank w (snd (tmuxExec command (Some 0) w))"
  proof -
    let ?w' = "snd (tmuxExec command (Some 0) w)"
    from tmuxExec_deadline [OF c0 c1 polls]
    obtain n where
      cmds: "length (drop (length (spawned w) + 2) (spawned ?w')) = Suc n"
      and bound: "0 < n \<longrightarrow> 500 * (int n - 1) < timeoutOrDefault (Some 0)"
      and late: "now w + timeoutOrDefault (Some 0) \<le> now ?w'"
      by (metis length_append_singleton length_replicate)
    from cmds have "length (spawned ?w') = length (spawned w) + 2 + n + 1" by simp
    with bound late show ?thesis by (auto simp: timeoutOrDefault_def)
  qed
  ultimately show ?thesis by blast
qed

text \<open>
  On a host where nothing ever shows, a call with timeout 0 whose loop first reads the
  clock 59999 ms after \<open>startTime\<close> still polls once before it cleans up; one that
  first reads it 60000 ms after does not poll at all.
\<close>

theorem zero_timeout_is_default_witness:
  "closes (ssh (late 59999 (fresh None failing)) (length (spawned (late 59999 (fresh None failing)))))
   \<and> closes (ssh (late 59999 (fresh None failing))
         (Suc (length (spawned (late 59999 (fresh None failing))))))
   \<and> pollsBlank (late 59999 (fresh None failing))
         (snd (tmuxExec ''sleep 90'' (Some 0) (late 59999 (fresh None failing))))
   \<and> now (late 59999 (fresh None failing)) + 60000
       \<le> now (snd (tmuxExec ''sleep 90'' (Some 0) (late 59999 (fresh None failing))))
   \<and> map fst (drop 2 (spawned (snd (tmuxExec ''sleep 90'' (Some 0)
         (late 59999 (fresh None failing)))))) =
       [''test -f /tmp/claude-relay-exit-1700000000000 && ''
          @ ''cat /tmp/claude-relay-exit-1700000000000'',
        ''rm -f /tmp/claude-relay-output-1700000000000 ''
          @ ''/tmp/claude-relay-exit-1700000000000'']
   \<and> map fst (drop 2 (spawned (snd (tmuxExec ''sleep 90'' (Some 0)
         (late 60000 (fresh None failing)))))) =
       [''rm -f /tmp/claude-relay-output-1700000000000 ''
          @ ''/tmp/claude-relay-exit-1700000000000'']"
proof -
  let ?w = "late 59999 (fresh None failing)"
  have c0: "closes (ssh ?w (length (spawned ?w)))"
    and c1: "closes (ssh ?w (Suc (length (spawned ?w))))"
    by (simp_all add: late_def fresh_def failing_def closes_def)
  have polls: "pollsBlank ?w (snd (tmuxExec ''sleep 90'' (Some 0) ?w))"
    by (simp add: pollsBlank_iff late_def fresh_def failing_def blank_def trim_def)
  from zero_timeout_is_default [of "''sleep 90''" ?w] c0 c1 polls
  have "now ?w + 60000 \<le> now (snd (tmuxExec ''sleep 90'' (Some 0) ?w))"
    by blast
  moreover have "map fst (drop 2 (spawned (snd (tmuxExec ''sleep 90'' (Some 0) ?w)))) =
      [''test -f /tmp/claude-relay-exit-1700000000000 && ''
         @ ''cat /tmp/claude-relay-exit-1700000000000'',
       ''rm -f /tmp/claude-relay-output-1700000000000 ''
         @ ''/tmp/claude-relay-exit-1700000000000'']"
    by (simp add: tmuxExec_def Let_def dateNow_def sshExec_def timeoutOrDefault_def late_def
          fresh_def failing_def TMUX_SESSION_def tmuxWait_poll_blank tmuxWait_past_deadline
          blank_def trim_def showInt_def showDigits.simps digit_def)
  moreover have "map fst (drop 2 (spawned (snd (tmuxExec ''sleep 90'' (Some 0)
        (late 60000 (fresh None failing)))))) =
      [''rm -f /tmp/claude-relay-output-1700000000000 ''
         @ ''/tmp/claude-relay-exit-1700000000000'']"
    by (simp add: tmuxExec_def Let_def dateNow_def sshExec_def timeoutOrDefault_def late_def
          fresh_def failing_def TMUX_SESSION_def tmuxWait_poll_blank tmuxWait_past_deadline
          blank_def trim_def showInt_def showDigits.simps digit_def)
  ultimately show ?thesis using c0 c1 polls by blast
qed

section \<open>Path resolution\<close>

lemma remote_read_spawned:
  "spawned (snd (remote_read filePath offset limit w)) =
     spawned w @ [(readCommand (resolvePath (currentWorkingDirectory w) filePath) offset limit,
                   60000)]"
proof -
  let ?command = "readCommand (resolvePath (currentWorkingDirectory w) filePath) offset limit"
  obtain r w1 where call: "sshExec ?command None w = (r, w1)"
    by (cases "sshExec ?command None w")
  from sshExec_frame [OF call] have "spawned w1 = spawned w @ [(?command, 60000)]"
    by (simp add: timeoutOrDefault_def)
  with call show ?thesis by (cases r) (simp_all add: remote_read_def Let_def)
qed

lemma remote_write_spawned:
  "spawned (snd (remote_write filePath content w)) =
     spawned w @ [(writeCommand (resolvePath (currentWorkingDirectory w) filePath) content,
                   60000)]"
proof -
  let ?command = "writeCommand (resolvePath (currentWorkingDirectory w) filePath) content"
  obtain r w1 where call: "sshExec ?command None w = (r, w1)"
    by (cases "sshExec ?command None w")
  from sshExec_frame [OF call] have "spawned w1 = spawned w @ [(?command, 60000)]"
    by (simp add: timeoutOrDefault_def)
  with call show ?thesis by (cases r) (simp_all add: remote_write_def Let_def)
qed

lemma remote_edit_spawned:
  "spawned (snd (remote_edit filePath old_string new_string w)) =
     spawned w @ [(''cat '' @ escapeShell (resolvePath (currentWorkingDirectory w) filePath),
                   60000)]
   \<or> (\<exists>newContent. spawned (snd (remote_edit filePath old_string new_string w)) =
         spawned w @ [(''cat '' @ escapeShell (resolvePath (currentWorkingDirectory w) filePath),
                       60000),
                      (writeCommand (resolvePath (currentWorkingDirectory w) filePath) newContent,
                       60000)])"
proof -
  let ?fullPath = "resolvePath (currentWorkingDirectory w) filePath"
  obtain r w1 where rd: "sshExec (''cat '' @ escapeShell ?fullPath) None w = (r, w1)"
    by (cases "sshExec (''cat '' @ escapeShell ?fullPath) None w")
  from sshExec_frame [OF rd]
  have s1: "spawned w1 = spawned w @ [(''cat '' @ escapeShell ?fullPath, 60000)]"
    by (simp add: timeoutOrDefault_def)
  show ?thesis
  proof (cases "spawned (snd (remote_edit filePath old_string new_string w)) = spawned w1")
    case True
    with s1 show ?thesis by simp
  next
    case False
    with rd obtain readResult where r: "r = Inr readResult"
      by (cases r) (auto simp: remote_edit_def Let_def)
    let ?newContent = "replace (stdout readResult) old_string new_string"
    from False rd r have
      "spawned (snd (remote_edit filePath old_string new_string w)) =
         spawned (snd (sshExec (writeCommand ?fullPath ?newContent) None w1))"
      by (auto simp: remote_edit_def Let_def split: if_splits prod.splits sum.splits)
    with s1 have
      "spawned (snd (remote_edit filePath old_string new_string w)) =
         spawned w @ [(''cat '' @ escapeShell ?fullPath, 60000),
                      (writeCommand ?fullPath ?newContent, 60000)]"
      by (simp add: sshExec_spawned timeoutOrDefault_def)
    then show ?thesis by blast
  qed
qed

text \<open>
  C2, as amended. For a path \<open>P\<close> that does not begin with \<open>/\<close>: when the working
  directory holds a non-empty \<open>D\<close>, the resolved path is \<open>D/P\<close>; when it is unset, or
  holds the empty string, the resolved path is \<open>P\<close>. A path \<open>A\<close> that begins with
  \<open>/\<close> is used as it is, whatever the working directory. The commands of
  \<open>remote_read\<close>, \<open>remote_write\<close> and \<open>remote_edit\<close> are built on the path so
  resolved.
\<close>

theorem path_resolution:
  "(\<not> startsWith P ''/'' \<and> D \<noteq> [] \<longrightarrow> resolvePath (Some D) P = D @ ''/'' @ P)
   \<and> (\<not> startsWith P ''/'' \<longrightarrow> resolvePath None P = P \<and> resolvePath (Some []) P = P)
   \<and> (startsWith A ''/'' \<longrightarrow> resolvePath cwd A = A)
   \<and> spawned (snd (remote_read P offset limit w)) =
       spawned w @ [(readCommand (resolvePath (currentWorkingDirectory w) P) offset limit, 60000)]
   \<and> spawned (snd (remote_write P content w)) =
       spawned w @ [(writeCommand (resolvePath (currentWorkingDirectory w) P) content, 60000)]
   \<and> (spawned (snd (remote_edit P old_string new_string w)) =
         spawned w @ [(''cat '' @ escapeShell (resolvePath (currentWorkingDirectory w) P), 60000)]
       \<or> (\<exists>newContent. spawned (snd (remote_edit P old_string new_string w)) =
             spawned w @ [(''cat '' @ escapeShell (resolvePath (currentWorkingDirectory w) P),
                           60000),
                          (writeCommand (resolvePath (currentWorkingDirectory w) P) newContent,
                           60000)]))"
proof -
  have "\<not> startsWith P ''/'' \<and> D \<noteq> [] \<longrightarrow> resolvePath (Some D) P = D @ ''/'' @ P"
    by (simp add: resolvePath_def)
  moreover have "\<not> startsWith P ''/'' \<longrightarrow> resolvePath None P = P \<and> resolvePath (Some []) P = P"
    by (simp add: resolvePath_def)
  moreover have "startsWith A ''/'' \<longrightarrow> resolvePath cwd A = A"
    by (simp add: resolvePath_def split: option.splits)
  ultimately show ?thesis
    using remote_read_spawned [of P offset limit w] remote_write_spawned [of P content w]
      remote_edit_spawned [of P old_string new_string w]
    by blast
qed

theorem path_resolution_witness:
  "\<not> startsWith ''syslog'' ''/'' \<and> ''/var/log'' \<noteq> []
   \<and> resolvePath (Some ''/var/log'') ''syslog'' = ''/var/log/syslog''
   \<and> resolvePath None ''syslog'' = ''syslog''
   \<and> startsWith ''/etc/hosts'' ''/''
   \<and> resolvePath (Some ''/var/log'') ''/etc/hosts'' = ''/etc/hosts''
   \<and> spawned (snd (remote_read ''syslog'' None None (fresh (Some ''/var/log'') silent))) =
       [(''cat -n '' @ sq @ ''/var/log/syslog'' @ sq, 60000)]"
  using path_resolution [of "''syslog''" "''/var/log''" "''/etc/hosts''" "Some ''/var/log''"
      None None "fresh (Some ''/var/log'') silent" "[]" "[]" "[]"]
  by (simp add: fresh_def readCommand_def escapeShell_def escapeQuote_def sq_def)

text \<open>
  C2 as stated fails for a working directory that holds the empty string. That state is
  reached through \<open>remote_cd\<close> when the probe's \<open>ssh\<close> is ended without an exit
  status before it printed anything: the status counts as 0 and the trimmed stdout is
  stored. A relative path is then sent as it is, not with \<open>/\<close> in front.
\<close>

theorem path_resolution_counterexample:
  "currentWorkingDirectory (snd (remote_cd ''proj'' (fresh None killed))) = Some []
   \<and> \<not> startsWith ''a.txt'' ''/''
   \<and> spawned (snd (remote_read ''a.txt'' None None (snd (remote_cd ''proj'' (fresh None killed)))))
       = [(''cd '' @ sq @ ''proj'' @ sq @ '' && pwd'', 60000),
          (''cat -n '' @ sq @ ''a.txt'' @ sq, 60000)]
   \<and> resolvePath (Some []) ''a.txt'' \<noteq> [] @ ''/'' @ ''a.txt''"
  by (simp add: remote_cd_def remote_read_def sshExec_def fresh_def killed_def Let_def
        resolvePath_def readCommand_def escapeShell_def escapeQuote_def sq_def trim_def
        timeoutOrDefault_def orElse_def)

section \<open>Editing\<close>

text \<open>A replacement text without \<open>$\<close> is inserted as it is.\<close>

lemma getSubstitution_plain:
  "CHR ''$'' \<notin> set template \<Longrightarrow> getSubstitution matched str position template = template"
  by (induction matched str position template rule: getSubstitution.induct) auto

text \<open>\<open>stringIndexOf\<close> finds the first occurrence at or after the start index, if there
  is one.\<close>

lemma firstMatch_Some:
  "firstMatch cs r i = Some j \<Longrightarrow>
     i \<le> j \<and> j - i \<le> length cs \<and> startsWith (drop (j - i) cs) r
     \<and> (\<forall>k<j - i. \<not> startsWith (drop k cs) r)"
proof (induction cs arbitrary: i)
  case Nil
  then show ?case by (simp split: if_splits)
next
  case (Cons c cs)
  show ?case
  proof (cases "startsWith (c # cs) r")
    case True
    with Cons.prems show ?thesis by simp
  next
    case False
    with Cons.prems have rec: "firstMatch cs r (Suc i) = Some j" by simp
    from Cons.IH [OF rec]
    have ih: "Suc i \<le> j" "j - Suc i \<le> length cs" "startsWith (drop (j - Suc i) cs) r"
      "\<forall>k<j - Suc i. \<not> startsWith (drop k cs) r"
      by simp_all
    from ih(1) have eq: "j - i = Suc (j - Suc i)" by simp
    have "\<forall>k<j - i. \<not> startsWith (drop k (c # cs)) r"
    proof (intro allI impI)
      fix k assume "k < j - i"
      show "\<not> startsWith (drop k (c # cs)) r"
      proof (cases k)
        case 0
        with False show ?thesis by simp
      next
        case (Suc k')
        with \<open>k < j - i\<close> eq have "k' < j - Suc i" by simp
        with ih(4) Suc show ?thesis by simp
      qed
    qed
    with ih eq show ?thesis by simp
  qed
qed

lemma firstMatch_None:
  "firstMatch cs r i = None \<Longrightarrow> \<forall>k\<le>length cs. \<not> startsWith (drop k cs) r"
proof (induction cs arbitrary: i)
  case Nil
  then show ?case by (cases r) (simp_all split: if_splits)
next
  case (Cons c cs)
  from Cons.prems have no: "\<not> startsWith (c # cs) r" and rec: "firstMatch cs r (Suc i) = None"
    by (simp_all split: if_splits)
  from Cons.IH [OF rec] have ih: "\<forall>k\<le>length cs. \<not> startsWith (drop k cs) r" .
  show ?case
  proof (intro allI impI)
    fix k assume "k \<le> length (c # cs)"
    then show "\<not> startsWith (drop k (c # cs)) r"
      using no ih by (cases k) simp_all
  qed
qed

lemma drop_drop_diff: "i \<le> k \<Longrightarrow> drop (k - i) (drop i s) = drop k s"
  by simp

lemma stringIndexOf_Some:
  assumes "stringIndexOf s r i = Some j"
  shows "i \<le> j" and "occursAt s r j" and "\<forall>k. i \<le> k \<and> k < j \<longrightarrow> \<not> occursAt s r k"
proof -
  from assms have le: "i \<le> length s" and fm: "firstMatch (drop i s) r i = Some j"
    by (simp_all add: stringIndexOf_def split: if_splits)
  from firstMatch_Some [OF fm]
  have f1: "i \<le> j" and f2: "j - i \<le> length (drop i s)"
    and f3: "startsWith (drop (j - i) (drop i s)) r"
    and f4: "\<forall>k<j - i. \<not> startsWith (drop k (drop i s)) r"
    by blast+
  show "i \<le> j" by fact
  from f3 f1 have "startsWith (drop j s) r" by (metis drop_drop_diff)
  moreover from f2 f1 le have "j \<le> length s" by simp
  ultimately show "occursAt s r j" by (simp add: occursAt_def)
  show "\<forall>k. i \<le> k \<and> k < j \<longrightarrow> \<not> occursAt s r k"
  proof (intro allI impI)
    fix k assume k: "i \<le> k \<and> k < j"
    then have "k - i < j - i" by arith
    with f4 have "\<not> startsWith (drop (k - i) (drop i s)) r" by blast
    with k have "\<not> startsWith (drop k s) r" by (metis drop_drop_diff)
    then show "\<not> occursAt s r k" by (simp add: occursAt_def)
  qed
qed

lemma stringIndexOf_None:
  assumes "stringIndexOf s r i = None" and "i \<le> k"
  shows "\<not> occursAt s r k"
proof (cases "i \<le> length s")
  case True
  with assms have "firstMatch (drop i s) r i = None" by (simp add: stringIndexOf_def)
  from firstMatch_None [OF this]
  have n: "\<forall>m\<le>length (drop i s). \<not> startsWith (drop m (drop i s)) r" .
  show ?thesis
  proof
    assume "occursAt s r k"
    then have k: "k \<le> length s" "startsWith (drop k s) r" by (simp_all add: occursAt_def)
    from k(1) assms(2) have "k - i \<le> length (drop i s)" by simp
    with n have "\<not> startsWith (drop (k - i) (drop i s)) r" by blast
    with assms(2) have "\<not> startsWith (drop k s) r" by (metis drop_drop_diff)
    with k(2) show False by blast
  qed
next
  case False
  with assms(2) show ?thesis by (simp add: occursAt_def)
qed

lemma occursAt_split:
  "occursAt s r j \<Longrightarrow> s = take j s @ r @ drop (j + length r) s"
proof -
  assume "occursAt s r j"
  then have "take (length r) (drop j s) = r"
    by (simp add: occursAt_def startsWith_take)
  then have "drop j s = r @ drop (length r) (drop j s)"
    by (metis append_take_drop_id)
  then have "s = take j s @ r @ drop (length r) (drop j s)"
    by (metis append_take_drop_id)
  then show ?thesis by (simp add: add.commute)
qed

text \<open>
  How many pieces \<open>split\<close> gives for a non-empty separator: one when it does not
  occur, two when nothing occurs after the first occurrence, at least three when two
  occurrences do not overlap.
\<close>

lemma splitFrom_not_Nil: "splitFrom s r i \<noteq> []"
  by (subst splitFrom.simps) (simp split: option.splits)

lemma split_length_one:
  assumes "r \<noteq> []"
  shows "length (split s r) = 1 \<longleftrightarrow> stringIndexOf s r 0 = None"
proof (cases "s = []")
  case True
  with assms show ?thesis by (cases r) (simp_all add: split_def stringIndexOf_def)
next
  case False
  show ?thesis
  proof (cases "stringIndexOf s r 0")
    case None
    with assms False show ?thesis by (simp add: split_def splitFrom.simps [of s r 0])
  next
    case (Some j)
    with assms False splitFrom_not_Nil [of s r "j + length r"] show ?thesis
      by (simp add: split_def splitFrom.simps [of s r 0])
  qed
qed

lemma split_length_two:
  assumes "r \<noteq> []" and "stringIndexOf s r 0 = Some j"
  shows "length (split s r) = 2 \<longleftrightarrow> stringIndexOf s r (j + length r) = None"
proof -
  from assms have "s \<noteq> []"
    by (cases r) (auto simp: stringIndexOf_def)
  with assms have len: "length (split s r) = Suc (length (splitFrom s r (j + length r)))"
    by (simp add: split_def splitFrom.simps [of s r 0])
  show ?thesis
  proof (cases "stringIndexOf s r (j + length r)")
    case None
    with assms(1) len show ?thesis by (simp add: splitFrom.simps [of s r "j + length r"])
  next
    case (Some k)
    with assms(1) len splitFrom_not_Nil [of s r "k + length r"] show ?thesis
      by (simp add: splitFrom.simps [of s r "j + length r"])
  qed
qed

lemma unique_occurrence:
  assumes "r \<noteq> []" and "occursAt s r j" and "\<forall>k. occursAt s r k \<longrightarrow> k = j"
  shows "stringIndexOf s r 0 = Some j" and "length (split s r) = 2"
proof -
  show first: "stringIndexOf s r 0 = Some j"
  proof (cases "stringIndexOf s r 0")
    case None
    from stringIndexOf_None [OF this, of j] assms(2) show ?thesis by simp
  next
    case (Some j')
    from stringIndexOf_Some(2) [OF this] assms(3) Some show ?thesis by simp
  qed
  have "stringIndexOf s r (j + length r) = None"
  proof (cases "stringIndexOf s r (j + length r)")
    case None
    then show ?thesis .
  next
    case (Some k)
    from stringIndexOf_Some(1,2) [OF this] assms(3) have "j + length r \<le> j" by auto
    with assms(1) show ?thesis by simp
  qed
  with split_length_two [OF assms(1) first] show "length (split s r) = 2" by simp
qed

lemma replace_plain:
  assumes "stringIndexOf s r 0 = Some j" and "CHR ''$'' \<notin> set replaceValue"
  shows "replace s r replaceValue = take j s @ replaceValue @ drop (j + length r) s"
  using assms by (simp add: replace_def getSubstitution_plain)

lemma split_length_three:
  assumes "r \<noteq> []" and "occursAt s r j" and "occursAt s r k" and "j + length r \<le> k"
  shows "3 \<le> length (split s r)"
proof -
  obtain j0 where first: "stringIndexOf s r 0 = Some j0"
    using stringIndexOf_None [of s r 0 j] assms(2) by (cases "stringIndexOf s r 0") auto
  have "j0 \<le> j"
  proof (rule ccontr)
    assume "\<not> j0 \<le> j"
    with stringIndexOf_Some(3) [OF first] assms(2) show False by auto
  qed
  with assms(4) have later: "j0 + length r \<le> k" by simp
  obtain k0 where second: "stringIndexOf s r (j0 + length r) = Some k0"
    using stringIndexOf_None [of s r "j0 + length r" k] assms(3) later
    by (cases "stringIndexOf s r (j0 + length r)") auto
  from assms(1) first have "s \<noteq> []"
    by (cases r) (auto simp: stringIndexOf_def)
  with assms(1) first second
  have "length (split s r) = Suc (Suc (length (splitFrom s r (k0 + length r))))"
    by (simp add: split_def splitFrom.simps [of s r 0] splitFrom.simps [of s r "j0 + length r"])
  with splitFrom_not_Nil [of s r "k0 + length r"] show ?thesis
    by (cases "splitFrom s r (k0 + length r)") simp_all
qed

text \<open>
  Where \<open>remote_edit\<close> does what its description says. The file is read with exit
  code 0 and holds \<open>C\<close>; \<open>old_string\<close> is not empty. If it occurs at exactly one
  index and \<open>new_string\<close> has no \<open>$\<close>, the here-document holds \<open>C\<close> with that
  occurrence replaced; if it occurs nowhere, or at two indices that do not overlap,
  the answer is the matching error and nothing is written.
\<close>

lemma remote_edit_unique:
  assumes cat: "ssh w (length (spawned w)) = (Closed C err (Some 0), ms)"
    and S: "S \<noteq> []" and at: "occursAt C S j" and only: "\<forall>k. occursAt C S k \<longrightarrow> k = j"
    and plain: "CHR ''$'' \<notin> set R"
  shows "C = take j C @ S @ drop (j + length S) C
       \<and> spawned (snd (remote_edit filePath S R w)) =
           spawned w @ [(''cat '' @ escapeShell (resolvePath (currentWorkingDirectory w) filePath),
                         60000),
                        (writeCommand (resolvePath (currentWorkingDirectory w) filePath)
                           (take j C @ R @ drop (j + length S) C), 60000)]"
proof -
  let ?fullPath = "resolvePath (currentWorkingDirectory w) filePath"
  define w1 where "w1 = w\<lparr>now := now w + int ms,
    spawned := spawned w @ [(''cat '' @ escapeShell ?fullPath, 60000)]\<rparr>"
  have rd: "sshExec (''cat '' @ escapeShell ?fullPath) None w =
      (Inr \<lparr>stdout = C, stderr = err, exitCode = Num 0\<rparr>, w1)"
    using sshExec_Closed [OF cat, of "''cat '' @ escapeShell ?fullPath" None]
    by (simp add: w1_def timeoutOrDefault_def)
  from unique_occurrence [OF S at only]
  have first: "stringIndexOf C S 0 = Some j" and two: "length (split C S) = 2" .
  let ?newContent = "take j C @ R @ drop (j + length S) C"
  have new: "replace C S R = ?newContent"
    using first plain by (rule replace_plain)
  have "spawned (snd (remote_edit filePath S R w)) =
          spawned (snd (sshExec (writeCommand ?fullPath ?newContent) None w1))"
    using rd two new
    by (simp add: remote_edit_def Let_def split: prod.splits sum.splits)
  then have "spawned (snd (remote_edit filePath S R w)) =
          spawned w @ [(''cat '' @ escapeShell ?fullPath, 60000),
                       (writeCommand ?fullPath ?newContent, 60000)]"
    by (simp add: sshExec_spawned w1_def timeoutOrDefault_def)
  with occursAt_split [OF at] show ?thesis by simp
qed

lemma remote_edit_not_found:
  assumes cat: "ssh w (length (spawned w)) = (Closed C err (Some 0), ms)"
    and S: "S \<noteq> []" and none: "\<forall>k. \<not> occursAt C S k"
  shows "fst (remote_edit filePath S R w) =
           \<lparr>responseText = ''Error: old_string not found in file'', isError = True\<rparr>
       \<and> spawned (snd (remote_edit filePath S R w)) =
           spawned w @ [(''cat '' @ escapeShell (resolvePath (currentWorkingDirectory w) filePath),
                         60000)]"
proof -
  let ?fullPath = "resolvePath (currentWorkingDirectory w) filePath"
  have "stringIndexOf C S 0 = None"
    using stringIndexOf_Some(2) [of C S 0] none by (cases "stringIndexOf C S 0") auto
  with split_length_one [OF S, of C] have "length (split C S) = 1" by simp
  then show ?thesis
    using sshExec_Closed [OF cat, of "''cat '' @ escapeShell ?fullPath" None]
    by (simp add: remote_edit_def Let_def timeoutOrDefault_def)
qed

lemma remote_edit_ambiguous:
  assumes cat: "ssh w (length (spawned w)) = (Closed C err (Some 0), ms)"
    and S: "S \<noteq> []" and "occursAt C S j" and "occursAt C S k" and "j + length S \<le> k"
  shows "fst (remote_edit filePath S R w) =
           \<lparr>responseText = ''Error: old_string found ''
              @ showInt (int (length (split C S)) - 1)
              @ '' times. Please provide more context to make it unique.'', isError = True\<rparr>
       \<and> spawned (snd (remote_edit filePath S R w)) =
           spawned w @ [(''cat '' @ escapeShell (resolvePath (currentWorkingDirectory w) filePath),
                         60000)]"
proof -
  let ?fullPath = "resolvePath (currentWorkingDirectory w) filePath"
  from split_length_three [OF S assms(3,4,5)] have "3 \<le> length (split C S)" .
  then show ?thesis
    using sshExec_Closed [OF cat, of "''cat '' @ escapeShell ?fullPath" None]
    by (simp add: remote_edit_def Let_def timeoutOrDefault_def)
qed

text \<open>Two overlapping occurrences count as one, and the first is replaced.\<close>

lemma remote_edit_overlapping:
  "occursAt ''aaa'' ''aa'' 0 \<and> occursAt ''aaa'' ''aa'' 1
   \<and> split ''aaa'' ''aa'' = [[], ''a'']
   \<and> spawned (snd (remote_edit ''f'' ''aa'' ''b'' (fresh None (\<lambda>k. (Closed ''aaa'' [] (Some 0), 35))))) =
       [(''cat '' @ sq @ ''f'' @ sq, 60000),
        (''cat > '' @ sq @ ''f'' @ sq @ '' << '' @ sq @ ''REMOTERELAY_EOF'' @ sq @ nl
           @ ''ba'' @ nl @ ''REMOTERELAY_EOF'', 60000)]"
  by code_simp

text \<open>
  C1. \<open>remote_edit\<close> computes the new content with \<open>String.prototype.replace\<close>,
  which reads \<open>$$\<close>, \<open>$&\<close>, \<open>$`\<close> and \<open>$'\<close> in \<open>new_string\<close> as patterns.
  The file holds \<open>echo pid\<close> and a line feed; \<open>pid\<close> occurs in it once; asked to
  put \<open>$$\<close> in its place, the tool sends a here-document with \<open>echo $\<close>, not
  \<open>echo $$\<close>, and reports success.
\<close>

theorem remote_edit_dollar:
  "split (''echo pid'' @ nl) ''pid'' = [''echo '', nl]
   \<and> replace (''echo pid'' @ nl) ''pid'' ''$$'' = ''echo $'' @ nl
   \<and> fst (remote_edit ''run.sh'' ''pid'' ''$$'' (fresh None catScript)) =
       \<lparr>responseText = ''Successfully edited run.sh'', isError = False\<rparr>
   \<and> spawned (snd (remote_edit ''run.sh'' ''pid'' ''$$'' (fresh None catScript))) =
       [(''cat '' @ sq @ ''run.sh'' @ sq, 60000),
        (''cat > '' @ sq @ ''run.sh'' @ sq @ '' << '' @ sq @ ''REMOTERELAY_EOF'' @ sq @ nl
           @ ''echo $'' @ nl @ nl @ ''REMOTERELAY_EOF'', 60000)]"
  by code_simp

section \<open>Temporary files of the Bridge\<close>

text \<open>
  Reading the digits of a printed clock value gives the value back, so two different
  (non-negative) readings of \<open>Date.now()\<close> give different file names.
\<close>

lemma digitValue_digit: "d < 10 \<Longrightarrow> digitValue (digit d) = d"
proof -
  assume "d < 10"
  then have "d \<in> {0, 1, 2, 3, 4, 5, 6, 7, 8, 9}" by auto
  then show ?thesis by (auto simp: digit_def digitValue_def)
qed

lemma readDigits_showDigits:
  "0 \<le> n \<Longrightarrow> foldl (\<lambda>a c. 10 * a + digitValue c) 0 (showDigits n) = nat n"
proof (induction n rule: showDigits.induct)
  case (1 n)
  show ?case
  proof (cases "n < 10")
    case True
    with "1.prems" have "nat n < 10" by simp
    with True show ?thesis by (subst showDigits.simps) (simp add: digitValue_digit)
  next
    case False
    with "1.prems" have "0 \<le> n div 10" by simp
    from "1.IH" [OF False this]
    have ih: "foldl (\<lambda>a c. 10 * a + digitValue c) 0 (showDigits (n div 10)) = nat (n div 10)" .
    have "nat (n mod 10) < 10" by simp
    then have d: "digitValue (digit (nat (n mod 10))) = nat (n mod 10)" by (rule digitValue_digit)
    have "10 * nat (n div 10) + nat (n mod 10) = nat n"
      using "1.prems" by (simp add: nat_div_distrib nat_mod_distrib)
    with False ih d show ?thesis by (subst showDigits.simps) simp
  qed
qed

lemma showInt_inject:
  assumes "0 \<le> a" and "0 \<le> b" and "showInt a = showInt b"
  shows "a = b"
proof -
  from assms have "showDigits a = showDigits b" by (simp add: showInt_def)
  then have "foldl (\<lambda>a c. 10 * a + digitValue c) 0 (showDigits a)
           = foldl (\<lambda>a c. 10 * a + digitValue c) 0 (showDigits b)" by simp
  with assms(1,2) have "nat a = nat b" by (simp add: readDigits_showDigits)
  with assms(1,2) show ?thesis by simp
qed

lemma tmuxExec_files_differ:
  assumes "0 \<le> t" and "0 \<le> t'" and "t \<noteq> t'"
  shows "''/tmp/claude-relay-output-'' @ showInt t \<noteq> ''/tmp/claude-relay-output-'' @ showInt t'"
    and "''/tmp/claude-relay-exit-'' @ showInt t \<noteq> ''/tmp/claude-relay-exit-'' @ showInt t'"
  using assms showInt_inject [of t t'] by auto

text \<open>
  C6. The two file names are made from \<open>Date.now()\<close> alone. Two calls that read the
  same millisecond, here one for \<open>make test\<close> and one for \<open>git pull\<close>, send their
  output to the same file and their exit status to the same file.
\<close>

theorem tmuxExec_same_millisecond:
  "now (fresh None silent) = now (fresh (Some ''/srv'') silent)
   \<and> map fst (take 2 (drop 1 (spawned (snd (tmuxExec ''make test'' (Some 500) (fresh None silent))))))
       = [''tmux send-keys -t claude-relay '' @ sq
            @ ''{ make test ; } > /tmp/claude-relay-output-1700000000000 2>&1; ''
            @ ''echo $? > /tmp/claude-relay-exit-1700000000000'' @ sq @ '' Enter'',
          ''test -f /tmp/claude-relay-exit-1700000000000 && ''
            @ ''cat /tmp/claude-relay-exit-1700000000000'']
   \<and> map fst (take 2 (drop 1 (spawned (snd (tmuxExec ''git pull'' (Some 500)
         (fresh (Some ''/srv'') silent))))))
       = [''tmux send-keys -t claude-relay '' @ sq
            @ ''{ cd '' @ sq @ [CHR 0x5C] @ sq @ sq @ ''/srv'' @ sq @ [CHR 0x5C] @ sq @ sq
            @ '' && git pull ; } > /tmp/claude-relay-output-1700000000000 2>&1; ''
            @ ''echo $? > /tmp/claude-relay-exit-1700000000000'' @ sq @ '' Enter'',
          ''test -f /tmp/claude-relay-exit-1700000000000 && ''
            @ ''cat /tmp/claude-relay-exit-1700000000000'']"
  by code_simp

section \<open>Writing and reading back\<close>





text \<open>
  So it is with the here-document of \<open>remote_edit\<close>: the file read as
  \<open>echo pid\<close> and a line feed is written back, \<open>pid\<close> replaced by \<open>id\<close>, with a
  second line feed at its end.
\<close>

lemma remote_edit_appends_line_feed:
  "spawned (snd (remote_edit ''run.sh'' ''pid'' ''id'' (fresh None catScript))) =
     [(''cat '' @ sq @ ''run.sh'' @ sq, 60000),
      (''cat > '' @ sq @ ''run.sh'' @ sq @ '' << '' @ sq @ ''REMOTERELAY_EOF'' @ sq @ nl
         @ (''echo id'' @ nl @ nl @ ''REMOTERELAY_EOF''), 60000)]
   \<and> hereDocument ''REMOTERELAY_EOF'' (''echo id'' @ nl @ nl @ ''REMOTERELAY_EOF'')
       = ''echo id'' @ nl @ nl"
  by code_simp








lemma numbered_not_Nil: "xs \<noteq> [] \<Longrightarrow> numbered n xs \<noteq> []"
  by (cases xs) simp_all

















end
